theory Spec2Isabelle
  imports Complex_Main "HOL-Library.Char_ord" "HOL-Library.List_Lexorder"
begin

section \<open>Python values\<close>

text \<open>
  The clients work on whatever \<^verbatim>\<open>json.loads\<close> produced from the upstream body, so
  the model keeps the dynamic values of the source: any JSON value can turn up in any
  position and the code's behaviour on it (a default, a caught exception, an uncaught one)
  is part of each function below. JSON numbers are integers or finite fractions; objects
  are association lists read through \<open>map_of\<close>, their keys distinct as in a \<^verbatim>\<open>dict\<close>.

  A Python float is modelled by the rational number it stands for, or by one of the three
  non-finite values; the rounding of binary floating point is not modelled, only the
  overflow to infinity and the underflow to zero, which change what \<^verbatim>\<open>if x\<close> and
  \<^verbatim>\<open>int / float\<close> do.
\<close>

datatype pyfloat = Fin rat | PInf | NInf | NaN

datatype json =
    JNull
  | JBool bool
  | JInt int
  | JFloat rat
  | JStr string
  | JArr "json list"
  | JObj "(string \<times> json) list"

text \<open>The exceptions the modelled code can meet; only \<open>ValueError\<close> is ever caught by name.\<close>

datatype pyerr =
    ValueError
  | TypeError
  | AttributeError
  | OverflowError
  | RequestException string
  | JSONDecodeError string

text \<open>\<^verbatim>\<open>bool(v)\<close>, the test behind \<^verbatim>\<open>if v\<close>, \<^verbatim>\<open>a or b\<close> and \<^verbatim>\<open>a and b\<close>.\<close>

fun float_truthy :: "pyfloat \<Rightarrow> bool" where
  "float_truthy (Fin q) = (q \<noteq> 0)"
| "float_truthy _ = True"

fun truthy :: "json \<Rightarrow> bool" where
  "truthy JNull = False"
| "truthy (JBool b) = b"
| "truthy (JInt n) = (n \<noteq> 0)"
| "truthy (JFloat q) = (q \<noteq> 0)"
| "truthy (JStr s) = (s \<noteq> [])"
| "truthy (JArr xs) = (xs \<noteq> [])"
| "truthy (JObj kvs) = (kvs \<noteq> [])"

text \<open>
  \<^verbatim>\<open>d.get(k, default)\<close>: only a dict has \<^verbatim>\<open>get\<close>; on anything else the attribute
  lookup raises. A key that is present with value \<^verbatim>\<open>null\<close> yields \<^verbatim>\<open>None\<close>, not the
  default.
\<close>

fun py_get :: "json \<Rightarrow> string \<Rightarrow> json \<Rightarrow> pyerr + json" where
  "py_get (JObj kvs) k d = Inr (case map_of kvs k of None \<Rightarrow> d | Some v \<Rightarrow> v)"
| "py_get _ k d = Inl AttributeError"

text \<open>\<^verbatim>\<open>for x in v\<close>: a list gives its elements, a dict its keys, a string its characters.\<close>

fun py_iter :: "json \<Rightarrow> pyerr + json list" where
  "py_iter (JArr xs) = Inr xs"
| "py_iter (JObj kvs) = Inr (map (\<lambda>kv. JStr (fst kv)) kvs)"
| "py_iter (JStr s) = Inr (map (\<lambda>c. JStr [c]) s)"
| "py_iter _ = Inl TypeError"

text \<open>\<^verbatim>\<open>len(v)\<close>.\<close>

fun py_len :: "json \<Rightarrow> pyerr + nat" where
  "py_len (JStr s) = Inr (length s)"
| "py_len (JArr xs) = Inr (length xs)"
| "py_len (JObj kvs) = Inr (length kvs)"
| "py_len _ = Inl TypeError"

subsection \<open>Strings\<close>

definition is_digit :: "char \<Rightarrow> bool" where
  "is_digit c = (48 \<le> (of_char c :: nat) \<and> (of_char c :: nat) \<le> 57)"

definition digit_val :: "char \<Rightarrow> nat" where
  "digit_val c = (of_char c :: nat) - 48"

text \<open>
  A \<open>char\<close> stands for the code point of the same number, 0 to 255. The characters
  \<^verbatim>\<open>str.strip()\<close> removes, and \<^verbatim>\<open>int()\<close> and \<^verbatim>\<open>float()\<close> skip at both ends, are
  those Python takes as white space: tab to carriage return, the four separators 28 to 31,
  the space, the next-line control 133 and the no-break space 160.
\<close>

definition is_space :: "char \<Rightarrow> bool" where
  "is_space c =
     (let n = (of_char c :: nat)
      in (9 \<le> n \<and> n \<le> 13) \<or> (28 \<le> n \<and> n \<le> 32) \<or> n = 133 \<or> n = 160)"

definition strip :: "string \<Rightarrow> string" where
  "strip s = rev (dropWhile is_space (rev (dropWhile is_space s)))"

definition upper_char :: "char \<Rightarrow> char" where
  "upper_char c =
     (case map_of (zip ''abcdefghijklmnopqrstuvwxyz'' ''ABCDEFGHIJKLMNOPQRSTUVWXYZ'') c of
        Some u \<Rightarrow> u
      | None \<Rightarrow> c)"

definition lower_char :: "char \<Rightarrow> char" where
  "lower_char c =
     (case map_of (zip ''ABCDEFGHIJKLMNOPQRSTUVWXYZ'' ''abcdefghijklmnopqrstuvwxyz'') c of
        Some l \<Rightarrow> l
      | None \<Rightarrow> c)"

definition upper :: "string \<Rightarrow> string" where
  "upper s = map upper_char s"

definition lower :: "string \<Rightarrow> string" where
  "lower s = map lower_char s"

text \<open>\<^verbatim>\<open>s.split(sep)\<close> for a one-character separator: never an empty list.\<close>

fun split_on :: "char \<Rightarrow> string \<Rightarrow> string list" where
  "split_on sep [] = [[]]"
| "split_on sep (c # cs) =
     (if c = sep then [] # split_on sep cs
      else (case split_on sep cs of
              [] \<Rightarrow> [[c]]
            | p # ps \<Rightarrow> (c # p) # ps))"

text \<open>\<^verbatim>\<open>s.zfill(n)\<close>: pads with zeros on the left, after a leading sign if there is one.\<close>

definition zfill :: "nat \<Rightarrow> string \<Rightarrow> string" where
  "zfill n s =
     (case s of
        c # cs \<Rightarrow>
          (if c = CHR ''+'' \<or> c = CHR ''-''
           then c # replicate (n - length s) CHR ''0'' @ cs
           else replicate (n - length s) CHR ''0'' @ s)
      | [] \<Rightarrow> replicate n CHR ''0'')"

subsection \<open>Numbers from text\<close>

text \<open>
  A digit part of a Python numeric literal: digits, with single underscores allowed
  between two digits. The result is the digits without the underscores.
\<close>

fun us_rest :: "string \<Rightarrow> string option" where
  "us_rest [] = Some []"
| "us_rest [c] = (if is_digit c then Some [c] else None)"
| "us_rest (c # d # ds) =
     (if is_digit c then map_option (Cons c) (us_rest (d # ds))
      else if c = CHR ''_'' \<and> is_digit d then map_option (Cons d) (us_rest ds)
      else None)"

definition us_digits :: "string \<Rightarrow> string option" where
  "us_digits s =
     (case s of
        [] \<Rightarrow> None
      | c # cs \<Rightarrow> if is_digit c then map_option (Cons c) (us_rest cs) else None)"

definition nat_of_digits :: "string \<Rightarrow> nat" where
  "nat_of_digits ds = foldl (\<lambda>a c. 10 * a + digit_val c) 0 ds"

text \<open>An optional sign in front of the rest.\<close>

definition split_sign :: "string \<Rightarrow> bool \<times> string" where
  "split_sign s =
     (case s of
        c # cs \<Rightarrow>
          (if c = CHR ''-'' then (True, cs)
           else if c = CHR ''+'' then (False, cs)
           else (False, s))
      | [] \<Rightarrow> (False, []))"

text \<open>\<^verbatim>\<open>int(s)\<close> on a string, base ten: \<open>None\<close> stands for the \<^verbatim>\<open>ValueError\<close>.\<close>

definition int_of_string :: "string \<Rightarrow> int option" where
  "int_of_string s =
     (let (neg, body) = split_sign (strip s)
      in case us_digits body of
           None \<Rightarrow> None
         | Some ds \<Rightarrow> Some (if neg then - int (nat_of_digits ds) else int (nat_of_digits ds)))"

text \<open>
  The result of a float operation whose exact value is \<open>q\<close>: past the largest double it is
  an infinity, below half the smallest subnormal it is zero.
\<close>

definition dbl_overflow :: rat where
  "dbl_overflow = 2 ^ 1024 - 2 ^ 970"

definition dbl_underflow :: rat where
  "dbl_underflow = 1 / 2 ^ 1075"

definition fl :: "rat \<Rightarrow> pyfloat" where
  "fl q =
     (if dbl_overflow \<le> q then PInf
      else if q \<le> - dbl_overflow then NInf
      else if \<bar>q\<bar> \<le> dbl_underflow then Fin 0
      else Fin q)"

text \<open>Splitting at the first character that satisfies \<open>P\<close>; the character itself is dropped.\<close>

definition split_first :: "(char \<Rightarrow> bool) \<Rightarrow> string \<Rightarrow> string \<times> string option" where
  "split_first P s =
     (case dropWhile (\<lambda>c. \<not> P c) s of
        [] \<Rightarrow> (s, None)
      | _ # r \<Rightarrow> (takeWhile (\<lambda>c. \<not> P c) s, Some r))"

text \<open>The mantissa \<^verbatim>\<open>digits[.digits]\<close> or \<^verbatim>\<open>.digits\<close>: its value and the number of
  digits after the point.\<close>

definition mantissa :: "string \<Rightarrow> (nat \<times> nat) option" where
  "mantissa m =
     (case split_first (\<lambda>c. c = CHR ''.'') m of
        (ip, None) \<Rightarrow> map_option (\<lambda>ds. (nat_of_digits ds, 0)) (us_digits ip)
      | (ip, Some fp) \<Rightarrow>
          (if ip = [] \<and> fp = [] then None
           else
             (case (if ip = [] then Some [] else us_digits ip,
                    if fp = [] then Some [] else us_digits fp) of
                (Some ids, Some fds) \<Rightarrow> Some (nat_of_digits (ids @ fds), length fds)
              | _ \<Rightarrow> None)))"

definition exponent :: "string option \<Rightarrow> int option" where
  "exponent e =
     (case e of
        None \<Rightarrow> Some 0
      | Some t \<Rightarrow>
          (let (neg, body) = split_sign t
           in map_option (\<lambda>ds. if neg then - int (nat_of_digits ds) else int (nat_of_digits ds))
                (us_digits body)))"

definition pow10 :: "int \<Rightarrow> rat" where
  "pow10 k = (if 0 \<le> k then 10 ^ nat k else 1 / 10 ^ nat (- k))"

definition decimal :: "string \<Rightarrow> rat option" where
  "decimal body =
     (case split_first (\<lambda>c. c = CHR ''e'' \<or> c = CHR ''E'') body of
        (m, e) \<Rightarrow>
          (case (mantissa m, exponent e) of
             (Some (n, k), Some x) \<Rightarrow> Some (of_nat n * pow10 (x - int k))
           | _ \<Rightarrow> None))"

text \<open>\<^verbatim>\<open>float(s)\<close> on a string: \<open>None\<close> stands for the \<^verbatim>\<open>ValueError\<close>.\<close>

definition float_of_string :: "string \<Rightarrow> pyfloat option" where
  "float_of_string s =
     (let (neg, body) = split_sign (strip s)
      in if lower body = ''inf'' \<or> lower body = ''infinity'' then Some (if neg then NInf else PInf)
         else if lower body = ''nan'' then Some NaN
         else map_option (\<lambda>q. fl (if neg then - q else q)) (decimal body))"

text \<open>\<^verbatim>\<open>float(v)\<close> on a value that passed \<^verbatim>\<open>if v\<close>.\<close>

fun py_float :: "json \<Rightarrow> pyerr + pyfloat" where
  "py_float (JStr s) = (case float_of_string s of None \<Rightarrow> Inl ValueError | Some f \<Rightarrow> Inr f)"
| "py_float (JInt n) =
     (if dbl_overflow \<le> \<bar>of_int n\<bar> then Inl OverflowError else Inr (Fin (of_int n)))"
| "py_float (JFloat q) = Inr (Fin q)"
| "py_float (JBool b) = Inr (Fin (if b then 1 else 0))"
| "py_float _ = Inl TypeError"

text \<open>\<^verbatim>\<open>x / 100\<close> and \<^verbatim>\<open>a - b\<close> on floats.\<close>

fun float_div100 :: "pyfloat \<Rightarrow> pyfloat" where
  "float_div100 (Fin q) = fl (q / 100)"
| "float_div100 f = f"

fun float_sub :: "pyfloat \<Rightarrow> pyfloat \<Rightarrow> pyfloat" where
  "float_sub (Fin a) (Fin b) = fl (a - b)"
| "float_sub NaN _ = NaN"
| "float_sub _ NaN = NaN"
| "float_sub PInf PInf = NaN"
| "float_sub NInf NInf = NaN"
| "float_sub PInf _ = PInf"
| "float_sub NInf _ = NInf"
| "float_sub _ PInf = NInf"
| "float_sub _ NInf = PInf"

section \<open>Money and dates (buquebus\_client.py)\<close>

text \<open>
  \<^verbatim>\<open>_to_money(v)\<close>. Inside the \<^verbatim>\<open>try\<close>: \<^verbatim>\<open>None\<close> and the sentinel return
  \<^verbatim>\<open>None\<close>; otherwise \<^verbatim>\<open>int(str(v))\<close> is divided by \<^verbatim>\<open>100.0\<close> and rounded to two
  places. \<^verbatim>\<open>str\<close> of anything but an int or a string is never an integer literal, so the
  conversion raises; dividing an int that no double can hold raises too.
\<close>

fun int_of_str :: "json \<Rightarrow> pyerr + int" where
  "int_of_str (JInt n) = Inr n"
| "int_of_str (JStr s) = (case int_of_string s of None \<Rightarrow> Inl ValueError | Some n \<Rightarrow> Inr n)"
| "int_of_str _ = Inl ValueError"

definition is_na_stripped :: "json \<Rightarrow> bool" where
  "is_na_stripped v = (case v of JStr s \<Rightarrow> upper (strip s) = ''N/A'' | _ \<Rightarrow> False)"

definition to_money_try :: "json \<Rightarrow> pyerr + pyfloat option" where
  "to_money_try v =
     (if v = JNull then Inr None
      else if is_na_stripped v then Inr None
      else (case int_of_str v of
              Inl e \<Rightarrow> Inl e
            | Inr n \<Rightarrow>
                (if dbl_overflow \<le> \<bar>of_int n\<bar> then Inl OverflowError
                 else Inr (Some (fl (of_int n / 100))))))"

definition to_money :: "json \<Rightarrow> pyfloat option" where
  "to_money v = (case to_money_try v of Inl e \<Rightarrow> None | Inr r \<Rightarrow> r)"

text \<open>
  \<^verbatim>\<open>_normalize_date_to_yymmdd(fecha)\<close>. Unpacking the result of \<^verbatim>\<open>split\<close> into three
  names raises \<^verbatim>\<open>ValueError\<close> unless there are exactly three parts.
\<close>

definition unpack3 :: "string list \<Rightarrow> pyerr + string \<times> string \<times> string" where
  "unpack3 ps = (case ps of [a, b, c] \<Rightarrow> Inr (a, b, c) | _ \<Rightarrow> Inl ValueError)"

definition normalize_date_to_yymmdd :: "string \<Rightarrow> pyerr + string \<times> string \<times> string" where
  "normalize_date_to_yymmdd fecha0 =
     (let fecha = strip fecha0
      in if length fecha = 6 \<and> list_all is_digit fecha
         then Inr (take 2 fecha, take 2 (drop 2 fecha), take 2 (drop 4 fecha))
         else if CHR ''/'' \<in> set fecha
         then (case unpack3 (split_on CHR ''/'' fecha) of
                 Inl e \<Rightarrow> Inl e
               | Inr (dd, mm, yyyy) \<Rightarrow> Inr (drop (length yyyy - 2) yyyy, zfill 2 mm, zfill 2 dd))
         else (case unpack3 (split_on CHR ''-'' fecha) of
                 Inl e \<Rightarrow> Inl e
               | Inr (yyyy, mm, dd) \<Rightarrow> Inr (drop (length yyyy - 2) yyyy, zfill 2 mm, zfill 2 dd)))"

section \<open>Dictionaries keyed by sailing code\<close>

text \<open>
  The extractors build a \<^verbatim>\<open>dict\<close> whose keys are whatever the upstream sent as sailing
  code. A key must be hashable (a list or a dict is not), and two keys are the same when
  Python's \<^verbatim>\<open>==\<close> says so: numbers by value across \<^verbatim>\<open>int\<close>, \<^verbatim>\<open>float\<close> and
  \<^verbatim>\<open>bool\<close>, strings by content. The dict is an association list in insertion order; an
  assignment to a key that is present keeps the stored key and replaces the value.
\<close>

fun key_num :: "json \<Rightarrow> rat option" where
  "key_num (JInt n) = Some (of_int n)"
| "key_num (JFloat q) = Some q"
| "key_num (JBool b) = Some (if b then 1 else 0)"
| "key_num _ = None"

definition key_eq :: "json \<Rightarrow> json \<Rightarrow> bool" where
  "key_eq a b =
     (case (key_num a, key_num b) of
        (Some x, Some y) \<Rightarrow> x = y
      | (None, None) \<Rightarrow> a = b
      | _ \<Rightarrow> False)"

fun hashable :: "json \<Rightarrow> bool" where
  "hashable (JArr xs) = False"
| "hashable (JObj kvs) = False"
| "hashable _ = True"

fun dict_get :: "(json \<times> 'v) list \<Rightarrow> json \<Rightarrow> 'v option" where
  "dict_get [] k = None"
| "dict_get ((k', v) # d) k = (if key_eq k' k then Some v else dict_get d k)"

fun dict_put :: "json \<Rightarrow> 'v \<Rightarrow> (json \<times> 'v) list \<Rightarrow> (json \<times> 'v) list" where
  "dict_put k v [] = [(k, v)]"
| "dict_put k v ((k', v') # d) =
     (if key_eq k' k then (k', v) # d else (k', v') # dict_put k v d)"

definition dict_set :: "json \<Rightarrow> 'v \<Rightarrow> (json \<times> 'v) list \<Rightarrow> pyerr + (json \<times> 'v) list" where
  "dict_set k v d = (if hashable k then Inr (dict_put k v d) else Inl TypeError)"

text \<open>Sequencing of steps that may raise.\<close>

definition and_then :: "pyerr + 'a \<Rightarrow> ('a \<Rightarrow> pyerr + 'b) \<Rightarrow> pyerr + 'b" where
  "and_then m f = (case m of Inl e \<Rightarrow> Inl e | Inr x \<Rightarrow> f x)"

section \<open>Fare extractors\<close>

text \<open>
  One entry of an extractor's mapping is the tuple \<^verbatim>\<open>(total, hs, ha, ship)\<close>. The merge
  reads a missing code as \<^verbatim>\<open>(None, None, None, None)\<close>, so the amount and the times are
  optional here as well, and the vessel name is any JSON value, \<open>JNull\<close> for \<^verbatim>\<open>None\<close>.
\<close>

type_synonym entry = "pyfloat option \<times> string option \<times> string option \<times> json"

text \<open>The two nested lookups every tariff-totals item goes through.\<close>

definition tariff_type :: "json \<Rightarrow> pyerr + json" where
  "tariff_type t =
     and_then (py_get t ''c_QOR_QuotationBasisResponse'' (JObj [])) (\<lambda>a.
     and_then (py_get a ''m_TARF_TariffCodeTypeDescription'' (JObj [])) (\<lambda>b.
     py_get b ''c_U282_TariffType'' JNull))"

definition tariff_amount :: "json \<Rightarrow> pyerr + json" where
  "tariff_amount t =
     and_then (py_get t ''c_QLP_ChargesTotal'' (JObj [])) (\<lambda>a.
     and_then (py_get a ''m_CHTO_ChargeTotals'' (JObj [])) (\<lambda>b.
     py_get b ''m_U618_TotalAmount'' JNull))"

text \<open>
  \<^verbatim>\<open>str(v).upper() != "N/A"\<close>, without the \<^verbatim>\<open>strip\<close> of \<open>to_money\<close>. The text of a
  number, a boolean, a list or a dict never reads \<^verbatim>\<open>N/A\<close>.
\<close>

definition is_na :: "json \<Rightarrow> bool" where
  "is_na v = (case v of JStr s \<Rightarrow> upper s = ''N/A'' | _ \<Rightarrow> False)"

text \<open>
  The inner loop of \<^verbatim>\<open>_totales_programada_por_sailing\<close>: the first \<^verbatim>\<open>PROGRAMADA\<close> item
  whose total converts ends the loop; a \<^verbatim>\<open>ValueError\<close> of the conversion is caught and the
  loop goes on, any other exception leaves the function.
\<close>

fun total_programada :: "json list \<Rightarrow> pyerr + pyfloat option" where
  "total_programada [] = Inr None"
| "total_programada (t # ts) =
     and_then (tariff_type t) (\<lambda>tipo.
       if tipo = JStr ''PROGRAMADA''
       then and_then (tariff_amount t) (\<lambda>total_str.
              if truthy total_str \<and> \<not> is_na total_str
              then (case py_float total_str of
                      Inr f \<Rightarrow> Inr (Some (float_div100 f))
                    | Inl ValueError \<Rightarrow> total_programada ts
                    | Inl e \<Rightarrow> Inl e)
              else total_programada ts)
       else total_programada ts)"

text \<open>
  The inner loop of \<^verbatim>\<open>_totales_por_tarifa\<close>: the first item of the requested tariff ends
  the loop whatever its total is, and every exception of the conversion is caught.
\<close>

fun total_tarifa :: "string \<Rightarrow> json list \<Rightarrow> pyerr + pyfloat option" where
  "total_tarifa tarifa [] = Inr None"
| "total_tarifa tarifa (t # ts) =
     and_then (tariff_type t) (\<lambda>tipo.
       if tipo = JStr tarifa
       then and_then (tariff_amount t) (\<lambda>amt.
              if truthy amt \<and> \<not> is_na amt
              then (case py_float amt of
                      Inr f \<Rightarrow> Inr (Some (float_div100 f))
                    | Inl e \<Rightarrow> Inr None)
              else Inr None)
       else total_tarifa tarifa ts)"

text \<open>
  \<^verbatim>\<open>hs[:2] + ":" + hs[2:] if len(hs) == 4 else d\<close>. Only the length is tested. A list or a
  dict of length four passes the test and then fails in the slice or the concatenation.
\<close>

definition hhmm_or :: "string option \<Rightarrow> json \<Rightarrow> pyerr + string option" where
  "hhmm_or d hs =
     and_then (py_len hs) (\<lambda>n.
       if n = 4
       then (case hs of
               JStr s \<Rightarrow> Inr (Some (take 2 s @ '':'' @ drop 2 s))
             | _ \<Rightarrow> Inl TypeError)
       else Inr d)"

text \<open>
  The body of both extractors' outer loops for one sailing \<open>s\<close>, given the inner loop
  \<open>total_of\<close> and the value \<open>d\<close> a time of the wrong length becomes.
\<close>

definition sailing_step ::
  "(json list \<Rightarrow> pyerr + pyfloat option) \<Rightarrow> string option \<Rightarrow> json \<Rightarrow>
   (json \<times> entry) list \<Rightarrow> pyerr + (json \<times> entry) list" where
  "sailing_step total_of d s out =
     and_then (py_get s ''c_RDR_RouteDateTimeResponse'' (JObj [])) (\<lambda>r.
     and_then (py_get r ''m_ROUT_TravelRoute'' (JObj [])) (\<lambda>travel.
     and_then (py_get r ''m_DPDT_DepartureDateAndTime'' (JObj [])) (\<lambda>dep.
     and_then (py_get r ''c_ARDT_ArrivalDateAndTime'' (JObj [])) (\<lambda>arr.
     and_then (py_get r ''c_SHNM_ShipName'' (JObj [])) (\<lambda>ship.
     and_then (py_get travel ''c_C276_SailingCode'' JNull) (\<lambda>code.
     and_then (py_get s ''c_TCT_TariffChargesTotals'' (JArr [])) (\<lambda>tct.
     and_then (py_iter tct) (\<lambda>ts.
     and_then (total_of ts) (\<lambda>total.
       if truthy code \<and> total \<noteq> None
       then
         and_then (py_get dep ''m_U248_StandardDepartureTime'' (JStr [])) (\<lambda>hs.
         and_then (py_get arr ''c_U239_NominalArrivalTime'' (JStr [])) (\<lambda>ha.
         and_then (hhmm_or d hs) (\<lambda>hs'.
         and_then (hhmm_or d ha) (\<lambda>ha'.
         and_then (py_get ship ''m_SHNM_ShipName'' JNull) (\<lambda>name.
         dict_set code (total, hs', ha', name) out)))))
       else Inr out)))))))))"

fun sailing_loop ::
  "(json list \<Rightarrow> pyerr + pyfloat option) \<Rightarrow> string option \<Rightarrow> json list \<Rightarrow>
   (json \<times> entry) list \<Rightarrow> pyerr + (json \<times> entry) list" where
  "sailing_loop total_of d [] out = Inr out"
| "sailing_loop total_of d (s # ss) out =
     and_then (sailing_step total_of d s out) (sailing_loop total_of d ss)"

text \<open>\<^verbatim>\<open>BuquebusClient._totales_programada_por_sailing(raw_json)\<close>.\<close>

definition totales_programada_por_sailing :: "json \<Rightarrow> pyerr + (json \<times> entry) list" where
  "totales_programada_por_sailing raw_json =
     and_then (py_get raw_json ''data'' raw_json) (\<lambda>data.
     and_then (py_get data ''sailingprice'' (JArr [])) (\<lambda>sp.
     and_then (py_iter sp) (\<lambda>sailings.
     sailing_loop total_programada (Some []) sailings [])))"

text \<open>\<^verbatim>\<open>BuquebusClientV2._totales_por_tarifa(raw_json, tarifa)\<close>.\<close>

fun is_dict :: "json \<Rightarrow> bool" where
  "is_dict (JObj kvs) = True"
| "is_dict _ = False"

definition totales_por_tarifa :: "json \<Rightarrow> string \<Rightarrow> pyerr + (json \<times> entry) list" where
  "totales_por_tarifa raw_json tarifa =
     (if \<not> is_dict raw_json then Inr []
      else
        and_then (py_get raw_json ''data'' JNull) (\<lambda>data.
        and_then (py_get (if is_dict data then data else raw_json) ''sailingprice'' (JArr [])) (\<lambda>sp.
        and_then (py_iter sp) (\<lambda>sailings.
        sailing_loop (total_tarifa tarifa) None sailings []))))"

text \<open>The helper \<^verbatim>\<open>hhmm\<close> of \<^verbatim>\<open>get_web_prices\<close>: anything but a string of length four
  is handed back as it is.\<close>

definition hhmm :: "json \<Rightarrow> json" where
  "hhmm x =
     (case x of
        JStr s \<Rightarrow> if length s = 4 then JStr (take 2 s @ '':'' @ drop 2 s) else x
      | _ \<Rightarrow> x)"

section \<open>One record per sailing: \<^verbatim>\<open>fetch_day_full\<close>\<close>

record full_item =
  sailingCode :: json
  dep :: json
  arr :: json
  ship :: json
  available :: bool
  turista :: "pyfloat option"
  business :: "pyfloat option"
  diff :: "pyfloat option"

text \<open>
  The inner loop of \<^verbatim>\<open>fetch_day_full\<close> visits every tariff-totals item, converts its
  total with \<open>to_money\<close> and keeps the last \<^verbatim>\<open>PROGRAMADA\<close> and the last
  \<^verbatim>\<open>FLEXIBLE\<close> value.
\<close>

fun full_totals ::
  "json list \<Rightarrow> pyfloat option \<times> pyfloat option \<Rightarrow> pyerr + pyfloat option \<times> pyfloat option" where
  "full_totals [] acc = Inr acc"
| "full_totals (t # ts) (programada, flexible) =
     and_then (tariff_type t) (\<lambda>typ.
     and_then (tariff_amount t) (\<lambda>amt.
       full_totals ts
         (if typ = JStr ''PROGRAMADA'' then (to_money amt, flexible)
          else if typ = JStr ''FLEXIBLE'' then (programada, to_money amt)
          else (programada, flexible))))"

definition full_item_of :: "json \<Rightarrow> pyerr + full_item" where
  "full_item_of s =
     and_then (py_get s ''c_RDR_RouteDateTimeResponse'' (JObj [])) (\<lambda>r.
     and_then (py_get r ''m_ROUT_TravelRoute'' (JObj [])) (\<lambda>travel.
     and_then (py_get r ''m_DPDT_DepartureDateAndTime'' (JObj [])) (\<lambda>depblk.
     and_then (py_get r ''c_ARDT_ArrivalDateAndTime'' (JObj [])) (\<lambda>arrblk.
     and_then (py_get r ''c_SHNM_ShipName'' (JObj [])) (\<lambda>shp.
     and_then (py_get s ''c_TCT_TariffChargesTotals'' (JArr [])) (\<lambda>tct.
     and_then (py_iter tct) (\<lambda>ts.
     and_then (full_totals ts (None, None)) (\<lambda>(programada, flexible).
     and_then (py_get travel ''c_C276_SailingCode'' JNull) (\<lambda>code.
     and_then (py_get depblk ''m_U248_StandardDepartureTime'' JNull) (\<lambda>d.
     and_then (py_get arrblk ''c_U239_NominalArrivalTime'' JNull) (\<lambda>a.
     and_then (py_get shp ''m_SHNM_ShipName'' JNull) (\<lambda>nm.
     and_then (py_get travel ''c_C081_IsAvailable'' JNull) (\<lambda>av.
       Inr \<lparr> sailingCode = code, dep = d, arr = a, ship = nm, available = truthy av,
             turista = programada, business = flexible,
             diff = (case (programada, flexible) of
                       (Some p, Some f) \<Rightarrow> Some (float_sub f p)
                     | _ \<Rightarrow> None) \<rparr>)))))))))))))"

text \<open>A loop that appends one result per element and stops at the first exception.\<close>

fun each :: "('a \<Rightarrow> pyerr + 'b) \<Rightarrow> 'a list \<Rightarrow> pyerr + 'b list" where
  "each f [] = Inr []"
| "each f (x # xs) = and_then (f x) (\<lambda>y. and_then (each f xs) (\<lambda>ys. Inr (y # ys)))"

text \<open>What the public methods hand back next to the status: the upstream body as it
  came, or the rows they built.\<close>

datatype 'a body = Raw json | Rows "'a list"

text \<open>\<^verbatim>\<open>fetch_day_full\<close>, from the pair \<^verbatim>\<open>fetch_price\<close> returned.\<close>

definition fetch_day_full :: "int \<times> json \<Rightarrow> pyerr + int \<times> full_item body" where
  "fetch_day_full sd =
     (case sd of (status, data) \<Rightarrow>
        if status \<noteq> 200 then Inr (status, Raw data)
        else
          and_then (py_get data ''sailingprice'' (JArr [])) (\<lambda>sp.
          and_then (py_iter sp) (\<lambda>sailings.
          and_then (each full_item_of sailings) (\<lambda>out.
          Inr (200, Rows out)))))"

section \<open>The upstream call\<close>

text \<open>
  What \<^verbatim>\<open>requests\<close> can do with one POST: raise (no connection, timeout), or hand back
  a response with a status and a body that is empty, parses as JSON, or does not parse.
  The strings are the messages of the exceptions.
\<close>

datatype http_body = Empty | Json json | Garbage string

datatype http_outcome = Failure string | Response int http_body

text \<open>\<^verbatim>\<open>BuquebusClient._call_price_availability\<close>: everything inside \<^verbatim>\<open>try\<close>.\<close>

definition call_price_availability :: "http_outcome \<Rightarrow> pyerr + int \<times> json" where
  "call_price_availability oc =
     (case oc of
        Failure msg \<Rightarrow> Inr (500, JStr msg)
      | Response st Empty \<Rightarrow> Inr (st, JObj [])
      | Response st (Json j) \<Rightarrow> Inr (st, j)
      | Response st (Garbage msg) \<Rightarrow> Inr (500, JStr msg))"

text \<open>\<^verbatim>\<open>BuquebusClientV2._call_price_availability\<close>: the same through a session.\<close>

definition call_price_availability_V2 :: "http_outcome \<Rightarrow> pyerr + int \<times> json" where
  "call_price_availability_V2 oc =
     (case oc of
        Failure msg \<Rightarrow> Inr (500, JStr msg)
      | Response st Empty \<Rightarrow> Inr (st, JObj [])
      | Response st (Json j) \<Rightarrow> Inr (st, j)
      | Response st (Garbage msg) \<Rightarrow> Inr (500, JStr msg))"

text \<open>\<^verbatim>\<open>BuquebusClientUYU._call_price_availability\<close>: no \<^verbatim>\<open>try\<close>.\<close>

definition call_price_availability_UYU :: "http_outcome \<Rightarrow> pyerr + int \<times> json" where
  "call_price_availability_UYU oc =
     (case oc of
        Failure msg \<Rightarrow> Inl (RequestException msg)
      | Response st Empty \<Rightarrow> Inr (st, JObj [])
      | Response st (Json j) \<Rightarrow> Inr (st, j)
      | Response st (Garbage msg) \<Rightarrow> Inl (JSONDecodeError msg))"

section \<open>The merged fare table: \<^verbatim>\<open>fetch_day_web_prices_pro\<close>\<close>

subsection \<open>Formatting an amount\<close>

text \<open>
  \<^verbatim>\<open>format(v, ",.2f")\<close> on the exact value: two decimals, half to even, a comma between
  groups of three digits.
\<close>

definition round_half_even :: "rat \<Rightarrow> int" where
  "round_half_even q =
     (let f = \<lfloor>q\<rfloor>; r = q - of_int f
      in if r < 1 / 2 then f
         else if 1 / 2 < r then f + 1
         else if even f then f else f + 1)"

definition digit_char :: "nat \<Rightarrow> char" where
  "digit_char n = ''0123456789'' ! (n mod 10)"

fun nat_digits :: "nat \<Rightarrow> string" where
  "nat_digits n = (if n < 10 then [digit_char n] else nat_digits (n div 10) @ [digit_char n])"

fun commas_rev :: "string \<Rightarrow> string" where
  "commas_rev (a # b # c # d # r) = a # b # c # CHR '','' # commas_rev (d # r)"
| "commas_rev s = s"

definition group3 :: "string \<Rightarrow> string" where
  "group3 s = rev (commas_rev (rev s))"

fun format_2f :: "pyfloat \<Rightarrow> string" where
  "format_2f (Fin q) =
     (let n = nat \<bar>round_half_even (q * 100)\<bar>
      in (if q < 0 then ''-'' else []) @ group3 (nat_digits (n div 100)) @ ''.''
         @ [digit_char (n div 10), digit_char n])"
| "format_2f PInf = ''inf''"
| "format_2f NInf = ''-inf''"
| "format_2f NaN = ''nan''"

definition replace :: "char \<Rightarrow> char \<Rightarrow> string \<Rightarrow> string" where
  "replace old new s = map (\<lambda>c. if c = old then new else c) s"

text \<open>The local \<^verbatim>\<open>fmt\<close>; \<open>cur\<close> is \<^verbatim>\<open>ARS\<close> in V2 and \<^verbatim>\<open>UYU\<close> in the Uruguayan client.\<close>

definition fmt :: "string \<Rightarrow> pyfloat option \<Rightarrow> string option" where
  "fmt cur v =
     (case v of
        None \<Rightarrow> None
      | Some x \<Rightarrow>
          Some (replace CHR ''X'' CHR ''.'' (replace CHR ''.'' CHR '','' (replace CHR '','' CHR ''X''
                 (cur @ '' '' @ format_2f x)))))"

subsection \<open>The merge\<close>

record pro_row =
  hora_salida :: "string option"
  hora_llegada :: "string option"
  barco :: json
  codigo :: json
  turista :: "string option"
  business :: "string option"
  diferencia :: "string option"
  economica :: "string option"
  primera :: "string option"

text \<open>\<^verbatim>\<open>set(a) | set(b)\<close> on key lists, and \<^verbatim>\<open>sorted\<close> of the result: strings sort among
  strings and numbers among numbers, and a comparison across the two raises.\<close>

definition key_add :: "json \<Rightarrow> json list \<Rightarrow> json list" where
  "key_add k ks = (if list_ex (\<lambda>k'. key_eq k' k) ks then ks else ks @ [k])"

definition key_union :: "json list \<Rightarrow> json list \<Rightarrow> json list" where
  "key_union a b = fold key_add b a"

fun is_str :: "json \<Rightarrow> bool" where
  "is_str (JStr s) = True"
| "is_str _ = False"

fun str_of :: "json \<Rightarrow> string" where
  "str_of (JStr s) = s"
| "str_of _ = []"

definition num_of :: "json \<Rightarrow> rat" where
  "num_of k = (case key_num k of Some q \<Rightarrow> q | None \<Rightarrow> 0)"

definition py_sorted :: "json list \<Rightarrow> pyerr + json list" where
  "py_sorted ks =
     (if list_all is_str ks then Inr (sort_key str_of ks)
      else if list_all (\<lambda>k. key_num k \<noteq> None) ks then Inr (sort_key num_of ks)
      else Inl TypeError)"

text \<open>\<^verbatim>\<open>m.get(code, (None, None, None, None))\<close>.\<close>

definition get4 :: "(json \<times> entry) list \<Rightarrow> json \<Rightarrow> entry" where
  "get4 m code = (case dict_get m code of None \<Rightarrow> (None, None, None, JNull) | Some e \<Rightarrow> e)"

text \<open>\<^verbatim>\<open>a or b\<close> on vessel names and on times, \<^verbatim>\<open>a and b\<close> on amounts.\<close>

definition py_or :: "json \<Rightarrow> json \<Rightarrow> json" where
  "py_or a b = (if truthy a then a else b)"

definition str_truthy :: "string option \<Rightarrow> bool" where
  "str_truthy a = (case a of None \<Rightarrow> False | Some s \<Rightarrow> s \<noteq> [])"

definition str_or :: "string option \<Rightarrow> string option \<Rightarrow> string option" where
  "str_or a b = (if str_truthy a then a else b)"

definition amount_truthy :: "pyfloat option \<Rightarrow> bool" where
  "amount_truthy a = (case a of None \<Rightarrow> False | Some f \<Rightarrow> float_truthy f)"

text \<open>The body of the loop over the sorted codes.\<close>

definition merge_row ::
  "string \<Rightarrow> (json \<times> entry) list \<Rightarrow> (json \<times> entry) list \<Rightarrow> (json \<times> entry) list \<Rightarrow>
   (json \<times> entry) list \<Rightarrow> json \<Rightarrow> pro_row" where
  "merge_row cur mapa_t mapa_b mapa_p mapa_e code =
     (case (get4 mapa_t code, get4 mapa_b code, get4 mapa_p code, get4 mapa_e code) of
        ((tur, hs, ha, ship_t), (bus, _, _, ship_b), (pri, _, _, ship_p), (eco, hs_e, ha_e, ship_e)) \<Rightarrow>
          \<lparr> hora_salida = str_or hs hs_e,
            hora_llegada = str_or ha ha_e,
            barco = py_or ship_t (py_or ship_b (py_or ship_p ship_e)),
            codigo = code,
            turista = fmt cur tur,
            business = fmt cur bus,
            diferencia = fmt cur (if amount_truthy bus \<and> amount_truthy tur
                                   then Some (float_sub (the bus) (the tur)) else None),
            economica = fmt cur eco,
            primera = fmt cur pri \<rparr>)"

definition sort_time :: "pro_row \<Rightarrow> string" where
  "sort_time x = (if str_truthy (hora_salida x) then the (hora_salida x) else ''99:99'')"

definition merge_pro ::
  "string \<Rightarrow> (json \<times> entry) list \<Rightarrow> (json \<times> entry) list \<Rightarrow> (json \<times> entry) list \<Rightarrow>
   (json \<times> entry) list \<Rightarrow> pyerr + pro_row list" where
  "merge_pro cur mapa_t mapa_b mapa_p mapa_e =
     and_then
       (py_sorted (key_union (key_union (key_union (map fst mapa_t) (map fst mapa_b))
                                (map fst mapa_p)) (map fst mapa_e)))
       (\<lambda>codes. Inr (sort_key sort_time (map (merge_row cur mapa_t mapa_b mapa_p mapa_e) codes)))"

subsection \<open>The two public methods\<close>

text \<open>
  Both start after \<^verbatim>\<open>_get_valid_token()\<close> has returned. Each of the four workers
  normalises the date before it posts, and \<^verbatim>\<open>result()\<close> re-raises what a worker raised,
  in the order tourist, business, first, economy. The four arguments are what the
  upstream did with the four requests.
\<close>

definition post_day_pricing :: "string \<Rightarrow> http_outcome \<Rightarrow> pyerr + int \<times> json" where
  "post_day_pricing fecha oc =
     and_then (normalize_date_to_yymmdd fecha) (\<lambda>ymd. call_price_availability_V2 oc)"

definition fetch_day_web_prices_pro_V2 ::
  "string \<Rightarrow> http_outcome \<Rightarrow> http_outcome \<Rightarrow> http_outcome \<Rightarrow> http_outcome \<Rightarrow>
   pyerr + int \<times> pro_row body" where
  "fetch_day_web_prices_pro_V2 fecha oc_t oc_b oc_p oc_e =
     and_then (post_day_pricing fecha oc_t) (\<lambda>(st_t, raw_t).
     and_then (post_day_pricing fecha oc_b) (\<lambda>(st_b, raw_b).
     and_then (post_day_pricing fecha oc_p) (\<lambda>(st_p, raw_p).
     and_then (post_day_pricing fecha oc_e) (\<lambda>(st_e, raw_e).
       if st_t \<noteq> 200 then Inr (st_t, Raw raw_t)
       else if st_b \<noteq> 200 then Inr (st_b, Raw raw_b)
       else if st_p \<noteq> 200 then Inr (st_p, Raw raw_p)
       else
         and_then (totales_programada_por_sailing raw_t) (\<lambda>mapa_t.
         and_then (totales_programada_por_sailing raw_b) (\<lambda>mapa_b.
         and_then (totales_programada_por_sailing raw_p) (\<lambda>mapa_p.
         and_then (if st_e = 200 then totales_por_tarifa raw_e ''ECONOMICA'' else Inr []) (\<lambda>mapa_e.
         and_then (merge_pro ''ARS'' mapa_t mapa_b mapa_p mapa_e) (\<lambda>results.
         Inr (200, Rows results))))))))))"

definition payload_then_call :: "string \<Rightarrow> http_outcome \<Rightarrow> pyerr + int \<times> json" where
  "payload_then_call fecha oc =
     and_then (normalize_date_to_yymmdd fecha) (\<lambda>ymd. call_price_availability_UYU oc)"

definition fetch_day_web_prices_pro_UYU ::
  "string \<Rightarrow> http_outcome \<Rightarrow> http_outcome \<Rightarrow> http_outcome \<Rightarrow> http_outcome \<Rightarrow>
   pyerr + int \<times> pro_row body" where
  "fetch_day_web_prices_pro_UYU fecha oc_t oc_b oc_p oc_e =
     and_then (payload_then_call fecha oc_t) (\<lambda>(st_t, raw_t).
     and_then (payload_then_call fecha oc_b) (\<lambda>(st_b, raw_b).
     and_then (payload_then_call fecha oc_p) (\<lambda>(st_p, raw_p).
     and_then (payload_then_call fecha oc_e) (\<lambda>(st_e, raw_e).
       if st_t \<noteq> 200 then Inr (st_t, Raw raw_t)
       else
         and_then (totales_programada_por_sailing raw_t) (\<lambda>mapa_t.
         and_then (totales_programada_por_sailing raw_b) (\<lambda>mapa_b.
         and_then (totales_programada_por_sailing raw_p) (\<lambda>mapa_p.
         and_then (if st_e = 200 then totales_por_tarifa raw_e ''ECONOMICA'' else Inr []) (\<lambda>mapa_e.
         and_then (merge_pro ''UYU'' mapa_t mapa_b mapa_p mapa_e) (\<lambda>results.
         Inr (200, Rows results))))))))))"

section \<open>The cached credential\<close>

text \<open>The cache file: absent, unreadable (reading or parsing raises), or holding a value.\<close>

datatype cache_file = Missing | Unreadable | Content json

text \<open>\<^verbatim>\<open>int(v)\<close>: a float is cut towards zero.\<close>

fun py_int :: "json \<Rightarrow> pyerr + int" where
  "py_int (JInt n) = Inr n"
| "py_int (JBool b) = Inr (if b then 1 else 0)"
| "py_int (JFloat q) = Inr (if 0 \<le> q then \<lfloor>q\<rfloor> else \<lceil>q\<rceil>)"
| "py_int (JStr s) = (case int_of_string s of None \<Rightarrow> Inl ValueError | Some n \<Rightarrow> Inr n)"
| "py_int _ = Inl TypeError"

text \<open>\<^verbatim>\<open>BuquebusClient._get_cached_token\<close> at the time \<open>now\<close> of \<^verbatim>\<open>_now_ts()\<close>.\<close>

definition get_cached_token_try :: "json \<Rightarrow> int \<Rightarrow> pyerr + json option" where
  "get_cached_token_try data now =
     and_then (py_get data ''token'' JNull) (\<lambda>tok.
     and_then (py_get data ''exp'' JNull) (\<lambda>exp.
       if truthy tok \<and> truthy exp
       then and_then (py_int exp) (\<lambda>e. Inr (if now < e then Some tok else None))
       else Inr None))"

definition get_cached_token :: "cache_file \<Rightarrow> int \<Rightarrow> json option" where
  "get_cached_token cf now =
     (case cf of
        Content data \<Rightarrow> (case get_cached_token_try data now of Inl e \<Rightarrow> None | Inr r \<Rightarrow> r)
      | _ \<Rightarrow> None)"

text \<open>\<^verbatim>\<open>BuquebusClientUYU._get_cached_token\<close>: the expiry defaults to zero and is compared
  as it is; comparing anything but a number with the clock raises, which is caught.\<close>

fun py_gt :: "json \<Rightarrow> int \<Rightarrow> pyerr + bool" where
  "py_gt (JInt n) now = Inr (now < n)"
| "py_gt (JFloat q) now = Inr (of_int now < q)"
| "py_gt (JBool b) now = Inr (now < (if b then 1 else 0))"
| "py_gt _ now = Inl TypeError"

definition get_cached_token_UYU_try :: "json \<Rightarrow> int \<Rightarrow> pyerr + json option" where
  "get_cached_token_UYU_try data now =
     and_then (py_get data ''token'' JNull) (\<lambda>tok.
       if truthy tok
       then and_then (py_get data ''exp'' (JInt 0)) (\<lambda>exp.
            and_then (py_gt exp now) (\<lambda>later. Inr (if later then Some tok else None)))
       else Inr None)"

definition get_cached_token_UYU :: "cache_file \<Rightarrow> int \<Rightarrow> json option" where
  "get_cached_token_UYU cf now =
     (case cf of
        Content data \<Rightarrow> (case get_cached_token_UYU_try data now of Inl e \<Rightarrow> None | Inr r \<Rightarrow> r)
      | _ \<Rightarrow> None)"

text \<open>
  \<^verbatim>\<open>debug_token\<close> of api.py. \<open>env\<close> is \<^verbatim>\<open>BQB_STATIC_TOKEN\<close>; \<open>decode\<close> stands for
  \<^verbatim>\<open>json.loads(base64.urlsafe_b64decode(parts[1] + "==="))\<close> on the token, \<open>None\<close> when
  that raises. A token that is not a string has no \<^verbatim>\<open>split\<close>.
\<close>

datatype debug_reply = NoToken | HasToken string bool json

definition masked :: "string \<Rightarrow> string" where
  "masked tok =
     (if 24 < length tok then take 10 tok @ ''...'' @ drop (length tok - 10) tok else ''masked'')"

definition cached_tok :: "cache_file \<Rightarrow> json" where
  "cached_tok cf =
     (case cf of
        Content data \<Rightarrow> (case py_get data ''token'' JNull of Inl e \<Rightarrow> JNull | Inr t \<Rightarrow> t)
      | _ \<Rightarrow> JNull)"

definition debug_token ::
  "(string \<Rightarrow> json option) \<Rightarrow> string option \<Rightarrow> cache_file \<Rightarrow> int \<Rightarrow> pyerr + debug_reply" where
  "debug_token decode env cf now =
     (let tok = (case env of
                   Some e \<Rightarrow> if e \<noteq> [] then JStr e else cached_tok cf
                 | None \<Rightarrow> cached_tok cf)
      in if \<not> truthy tok then Inr NoToken
         else (case tok of
                 JStr t \<Rightarrow>
                   and_then (py_get (case decode t of None \<Rightarrow> JObj [] | Some p \<Rightarrow> p) ''exp'' JNull) (\<lambda>exp.
                   and_then (if exp = JNull then Inr True
                             else and_then (py_int exp) (\<lambda>e. Inr (now < e))) (\<lambda>valid.
                   Inr (HasToken (masked t) valid exp)))
               | _ \<Rightarrow> Inl AttributeError))"

section \<open>Notions the properties are stated with\<close>

text \<open>
  A string reads as a whole number when, white space at both ends and one sign in front
  set aside, what is left is digits, begins and ends with a digit, and has no two
  underscores in a row (an underscore may stand between two digits). A value that does
  not read as a number is a string that does not read as a whole number, or a value that
  is neither a string nor a number.
\<close>

fun single_underscores :: "string \<Rightarrow> bool" where
  "single_underscores (a # b # cs) =
     (\<not> (a = CHR ''_'' \<and> b = CHR ''_'') \<and> single_underscores (b # cs))"
| "single_underscores cs = True"

definition digit_groups :: "string \<Rightarrow> bool" where
  "digit_groups b =
     (b \<noteq> [] \<and> is_digit (hd b) \<and> is_digit (last b)
      \<and> list_all (\<lambda>c. is_digit c \<or> c = CHR ''_'') b \<and> single_underscores b)"

definition integer_text :: "string \<Rightarrow> bool" where
  "integer_text s = digit_groups (snd (split_sign (strip s)))"

fun non_numeric :: "json \<Rightarrow> bool" where
  "non_numeric (JStr s) = (\<not> integer_text s)"
| "non_numeric (JInt n) = False"
| "non_numeric (JFloat q) = False"
| "non_numeric _ = True"

text \<open>
  The amount \<^verbatim>\<open>fetch_day_full\<close> is to show for a tariff: the converted total of the
  last tariff-totals item of that tariff, nothing when there is no such item.
\<close>

definition amount_after :: "pyfloat option \<Rightarrow> string \<Rightarrow> json list \<Rightarrow> pyfloat option" where
  "amount_after a0 tarifa ts =
     (case filter (\<lambda>t. tariff_type t = Inr (JStr tarifa)) ts of
        [] \<Rightarrow> a0
      | x # xs \<Rightarrow>
          (case tariff_amount (last (x # xs)) of Inl e \<Rightarrow> None | Inr a \<Rightarrow> to_money a))"

definition last_amount :: "string \<Rightarrow> json list \<Rightarrow> pyfloat option" where
  "last_amount tarifa ts = amount_after None tarifa ts"

text \<open>Upstream bodies of the shape the extractors walk, for the concrete cases below.\<close>

definition tariff_item :: "string \<Rightarrow> json \<Rightarrow> json" where
  "tariff_item tipo amt =
     JObj [(''c_QOR_QuotationBasisResponse'',
              JObj [(''m_TARF_TariffCodeTypeDescription'', JObj [(''c_U282_TariffType'', JStr tipo)])]),
           (''c_QLP_ChargesTotal'',
              JObj [(''m_CHTO_ChargeTotals'', JObj [(''m_U618_TotalAmount'', amt)])])]"

definition sailing_item :: "json \<Rightarrow> json \<Rightarrow> json \<Rightarrow> json \<Rightarrow> json list \<Rightarrow> json" where
  "sailing_item code hs ha name totals =
     JObj [(''c_RDR_RouteDateTimeResponse'',
              JObj [(''m_ROUT_TravelRoute'', JObj [(''c_C276_SailingCode'', code)]),
                    (''m_DPDT_DepartureDateAndTime'', JObj [(''m_U248_StandardDepartureTime'', hs)]),
                    (''c_ARDT_ArrivalDateAndTime'', JObj [(''c_U239_NominalArrivalTime'', ha)]),
                    (''c_SHNM_ShipName'', JObj [(''m_SHNM_ShipName'', name)])]),
           (''c_TCT_TariffChargesTotals'', JArr totals)]"

definition day_response :: "json list \<Rightarrow> json" where
  "day_response sailings = JObj [(''sailingprice'', JArr sailings)]"


definition sailing_totals :: "json \<Rightarrow> pyerr + json list" where
  "sailing_totals s = and_then (py_get s ''c_TCT_TariffChargesTotals'' (JArr [])) py_iter"





text \<open>The components of an entry, and the first value of a precedence list that Python
  takes as true (the last one when none is).\<close>

definition amount_of :: "entry \<Rightarrow> pyfloat option" where
  "amount_of e = fst e"

definition dep_of :: "entry \<Rightarrow> string option" where
  "dep_of e = fst (snd e)"

definition arr_of :: "entry \<Rightarrow> string option" where
  "arr_of e = fst (snd (snd e))"

definition name_of :: "entry \<Rightarrow> json" where
  "name_of e = snd (snd (snd e))"

fun first_truthy :: "json list \<Rightarrow> json" where
  "first_truthy [] = JNull"
| "first_truthy [x] = x"
| "first_truthy (x # y # ys) = (if truthy x then x else first_truthy (y # ys))"

fun first_time :: "string option list \<Rightarrow> string option" where
  "first_time [] = None"
| "first_time [x] = x"
| "first_time (x # y # ys) = (if str_truthy x then x else first_time (y # ys))"

text \<open>\<^verbatim>\<open>set(mapa_t) | set(mapa_b) | set(mapa_p) | set(mapa_e)\<close>.\<close>

definition all_codes ::
  "(json \<times> entry) list \<Rightarrow> (json \<times> entry) list \<Rightarrow> (json \<times> entry) list \<Rightarrow>
   (json \<times> entry) list \<Rightarrow> json list" where
  "all_codes mapa_t mapa_b mapa_p mapa_e =
     key_union (key_union (key_union (map fst mapa_t) (map fst mapa_b)) (map fst mapa_p))
       (map fst mapa_e)"


section \<open>Properties\<close>

subsection \<open>Characters and splitting\<close>

lemma digit_not_space: "is_digit c \<Longrightarrow> \<not> is_space c"
  by (auto simp: is_digit_def is_space_def Let_def)

lemma digit_not_slash: "is_digit c \<Longrightarrow> c \<noteq> CHR ''/''"
  by (auto simp: is_digit_def)

lemma digit_not_dash: "is_digit c \<Longrightarrow> c \<noteq> CHR ''-''"
  by (auto simp: is_digit_def)

lemma strip_id: "s \<noteq> [] \<Longrightarrow> \<not> is_space (hd s) \<Longrightarrow> \<not> is_space (last s) \<Longrightarrow> strip s = s"
proof -
  assume a: "s \<noteq> []" "\<not> is_space (hd s)" "\<not> is_space (last s)"
  then have "dropWhile is_space s = s"
    by (cases s) auto
  moreover have "dropWhile is_space (rev s) = rev s"
    using a by (cases "rev s") (auto simp: hd_rev)
  ultimately show ?thesis
    by (simp add: strip_def)
qed

lemma split_on_none: "sep \<notin> set a \<Longrightarrow> split_on sep a = [a]"
  by (induction a) auto

lemma split_on_app: "sep \<notin> set a \<Longrightarrow> split_on sep (a @ sep # b) = a # split_on sep b"
  by (induction a) auto

lemma digits_no_sep:
  "list_all is_digit s \<Longrightarrow> CHR ''/'' \<notin> set s \<and> CHR ''-'' \<notin> set s"
  by (auto simp: list_all_iff dest: digit_not_slash digit_not_dash)

lemma strip_digits_ends:
  assumes "a \<noteq> []" "list_all is_digit a" "b \<noteq> []" "list_all is_digit b"
  shows "strip (a @ m @ b) = a @ m @ b"
proof (rule strip_id)
  show "a @ m @ b \<noteq> []" using assms by simp
  show "\<not> is_space (hd (a @ m @ b))"
    using assms by (cases a) (auto dest: digit_not_space)
  have "last (a @ m @ b) = last b" using assms by simp
  moreover have "is_digit (last b)"
    using assms by (metis last_in_set list_all_iff)
  ultimately show "\<not> is_space (last (a @ m @ b))"
    by (simp add: digit_not_space)
qed

subsection \<open>Date normalisation\<close>

text \<open>
  C6. On the three accepted forms of one calendar date, with a four-digit year and
  two-digit month and day, \<open>normalize_date_to_yymmdd\<close> returns (it does not raise) and
  returns the same triple: the last two digits of the year, the month and the day. The
  six-digit form comes back as it went in, cut into its three pairs.
\<close>

theorem normalize_date_forms_agree:
  assumes y: "length yyyy = 4" "list_all is_digit yyyy"
    and m: "length mm = 2" "list_all is_digit mm"
    and d: "length dd = 2" "list_all is_digit dd"
  shows "normalize_date_to_yymmdd (yyyy @ ''-'' @ mm @ ''-'' @ dd) = Inr (drop 2 yyyy, mm, dd)
       \<and> normalize_date_to_yymmdd (dd @ ''/'' @ mm @ ''/'' @ yyyy) = Inr (drop 2 yyyy, mm, dd)
       \<and> normalize_date_to_yymmdd (drop 2 yyyy @ mm @ dd) = Inr (drop 2 yyyy, mm, dd)"
proof (intro conjI)
  have ne: "yyyy \<noteq> []" "mm \<noteq> []" "dd \<noteq> []"
    using y m d by auto
  have zm: "zfill 2 mm = mm" and zd: "zfill 2 dd = dd"
    using m d by (auto simp: zfill_def split: list.splits dest: digit_not_dash simp: is_digit_def)
  have nosep: "CHR ''/'' \<notin> set yyyy" "CHR ''-'' \<notin> set yyyy" "CHR ''/'' \<notin> set mm" "CHR ''-'' \<notin> set mm"
    "CHR ''/'' \<notin> set dd" "CHR ''-'' \<notin> set dd"
    using y m d digits_no_sep by blast+
  show "normalize_date_to_yymmdd (yyyy @ ''-'' @ mm @ ''-'' @ dd) = Inr (drop 2 yyyy, mm, dd)"
  proof -
    have s: "strip (yyyy @ ''-'' @ mm @ ''-'' @ dd) = yyyy @ ''-'' @ mm @ ''-'' @ dd"
      using strip_digits_ends [OF ne(1) y(2) ne(3) d(2), of "''-'' @ mm @ ''-''"] by simp
    have sp: "split_on CHR ''-'' (yyyy @ ''-'' @ mm @ ''-'' @ dd) = [yyyy, mm, dd]"
      using nosep by (simp add: split_on_app split_on_none)
    show ?thesis
      unfolding normalize_date_to_yymmdd_def s Let_def
      using y m d nosep sp by (simp add: unpack3_def zm zd)
  qed
  show "normalize_date_to_yymmdd (dd @ ''/'' @ mm @ ''/'' @ yyyy) = Inr (drop 2 yyyy, mm, dd)"
  proof -
    have s: "strip (dd @ ''/'' @ mm @ ''/'' @ yyyy) = dd @ ''/'' @ mm @ ''/'' @ yyyy"
      using strip_digits_ends [OF ne(3) d(2) ne(1) y(2), of "''/'' @ mm @ ''/''"] by simp
    have sp: "split_on CHR ''/'' (dd @ ''/'' @ mm @ ''/'' @ yyyy) = [dd, mm, yyyy]"
      using nosep by (simp add: split_on_app split_on_none)
    show ?thesis
      unfolding normalize_date_to_yymmdd_def s Let_def
      using y m d nosep sp by (simp add: unpack3_def zm zd)
  qed
  show "normalize_date_to_yymmdd (drop 2 yyyy @ mm @ dd) = Inr (drop 2 yyyy, mm, dd)"
  proof -
    have ne2: "drop 2 yyyy \<noteq> []" using y by auto
    have dg: "list_all is_digit (drop 2 yyyy)"
      using y by (auto simp: list_all_iff dest: in_set_dropD)
    have s: "strip (drop 2 yyyy @ mm @ dd) = drop 2 yyyy @ mm @ dd"
      using strip_digits_ends [OF ne2 dg ne(3) d(2), of mm] by simp
    show ?thesis
      unfolding normalize_date_to_yymmdd_def s Let_def
      using y m d dg by simp
  qed
qed

theorem normalize_date_forms_agree_witness:
  "normalize_date_to_yymmdd ''2025-03-14'' = Inr (''25'', ''03'', ''14'')
   \<and> normalize_date_to_yymmdd ''14/03/2025'' = Inr (''25'', ''03'', ''14'')
   \<and> normalize_date_to_yymmdd ''250314'' = Inr (''25'', ''03'', ''14'')"
  using normalize_date_forms_agree [of "''2025''" "''03''" "''14''"]
  by (simp add: is_digit_def)

subsection \<open>Money conversion\<close>

lemma ov_big: "(2::rat) ^ 64 \<le> dbl_overflow"
proof -
  have a: "(2::rat) ^ 1024 = 2 ^ 970 * 2 ^ 54"
    by (simp only: power_add [symmetric]) simp
  have b: "(1::rat) \<le> 2 ^ 54 - 1"
    by simp
  have c: "(2::rat) ^ 64 \<le> 2 ^ 970"
    by (rule power_increasing) simp_all
  have "dbl_overflow = 2 ^ 970 * (2 ^ 54 - 1)"
    unfolding dbl_overflow_def a by (simp only: right_diff_distrib mult_1_right)
  moreover have "(2::rat) ^ 970 * 1 \<le> 2 ^ 970 * (2 ^ 54 - 1)"
    by (rule mult_left_mono [OF b]) simp
  ultimately show ?thesis
    using c by (simp only: mult_1_right)
qed

lemma un_small: "dbl_underflow \<le> 1 / (2::rat) ^ 64"
proof -
  have "(2::rat) ^ 64 \<le> 2 ^ 1075"
    by (rule power_increasing) simp_all
  then show ?thesis
    unfolding dbl_underflow_def by (intro frac_le) simp_all
qed

lemma fl_Fin: "1 / 2 ^ 64 < \<bar>q\<bar> \<Longrightarrow> \<bar>q\<bar> < 2 ^ 64 \<Longrightarrow> fl q = Fin q"
  using ov_big un_small unfolding fl_def by (auto simp: abs_if split: if_splits)

lemma not_overflow: "\<bar>q\<bar> < 2 ^ 64 \<Longrightarrow> \<not> dbl_overflow \<le> \<bar>q\<bar>"
  using ov_big by simp

lemma us_rest_shape:
  "us_rest cs = Some ds \<Longrightarrow>
     list_all (\<lambda>c. is_digit c \<or> c = CHR ''_'') cs \<and> (cs \<noteq> [] \<longrightarrow> is_digit (last cs))
     \<and> single_underscores cs"
proof (induction cs arbitrary: ds rule: us_rest.induct)
  case 1
  then show ?case by simp
next
  case (2 c)
  then show ?case by (auto split: if_splits)
next
  case (3 c d ds')
  show ?case
  proof (cases "is_digit c")
    case True
    with 3 show ?thesis by (auto simp: is_digit_def)
  next
    case False
    with "3.prems" have u: "c = CHR ''_''" "is_digit d"
      by (auto split: if_splits)
    with False "3.prems" obtain r where r: "us_rest ds' = Some r"
      by auto
    from "3.IH"(2) [OF False _ r] u
    have ih: "list_all (\<lambda>c. is_digit c \<or> c = CHR ''_'') ds'" "ds' \<noteq> [] \<longrightarrow> is_digit (last ds')"
      "single_underscores ds'"
      by auto
    have dne: "d \<noteq> CHR ''_''" using u(2) by (auto simp: is_digit_def)
    show ?thesis
      using u ih dne by (cases ds') auto
  qed
qed

lemma us_digits_shape: "us_digits b = Some ds \<Longrightarrow> digit_groups b"
proof -
  assume a: "us_digits b = Some ds"
  then obtain c cs r where b: "b = c # cs" and c: "is_digit c" and r: "us_rest cs = Some r"
    by (cases b) (auto simp: us_digits_def split: if_splits)
  have cne: "c \<noteq> CHR ''_''" using c by (auto simp: is_digit_def)
  from us_rest_shape [OF r] show ?thesis
    using b c cne by (cases cs) (auto simp: digit_groups_def)
qed

lemma int_of_string_integer_text:
  assumes "int_of_string s = Some n"
  shows "integer_text s"
proof -
  obtain neg body where sb: "split_sign (strip s) = (neg, body)"
    by (cases "split_sign (strip s)")
  with assms obtain ds where "us_digits body = Some ds"
    by (auto simp: int_of_string_def split: option.splits)
  then show ?thesis
    using sb by (simp add: integer_text_def us_digits_shape)
qed

lemmas text_defs = strip_def is_space_def upper_def upper_char_def lower_def lower_char_def
  is_digit_def digit_val_def split_sign_def us_digits_def nat_of_digits_def int_of_string_def

lemma to_money_sample: "to_money (JStr ''8623440'') = Some (Fin (8623440 / 100))"
proof -
  have "int_of_string ''8623440'' = Some 8623440"
    by (simp add: text_defs)
  moreover have "\<not> is_na_stripped (JStr ''8623440'')"
    by (simp add: is_na_stripped_def text_defs)
  moreover have "fl (8623440 / 100) = Fin (8623440 / 100)"
    by (rule fl_Fin) simp_all
  moreover have "\<not> dbl_overflow \<le> \<bar>of_int 8623440\<bar>"
    by (rule not_overflow) simp
  ultimately show ?thesis
    by (simp add: to_money_def to_money_try_def)
qed

text \<open>
C8. \<open>to_money\<close> turns the integer-cents string \<^verbatim>\<open>"8623440"\<close> into 86234.40, and
  returns \<open>None\<close> for every value that is the \<^verbatim>\<open>N/A\<close> sentinel (in any case, with
  white space around it) or that does not read as a number. The exceptions of the
  conversion are branches of \<open>to_money_try\<close> and all end in \<open>None\<close>, so the result is
  never an exception and never zero.
\<close>

theorem to_money_absent_or_cents:
  "to_money (JStr ''8623440'') = Some (Fin (8623440 / 100))
   \<and> (\<forall>v. is_na_stripped v \<or> non_numeric v \<longrightarrow> to_money v = None)"
proof (intro conjI allI impI)
  show "to_money (JStr ''8623440'') = Some (Fin (8623440 / 100))"
    by (rule to_money_sample)
next
  fix v
  assume h: "is_na_stripped v \<or> non_numeric v"
  show "to_money v = None"
  proof (cases "is_na_stripped v")
    case True
    then show ?thesis by (simp add: to_money_def to_money_try_def)
  next
    case False
    with h have nn: "non_numeric v" by simp
    have "int_of_str v = Inl ValueError \<or> v = JNull"
    proof (cases v)
      case (JStr s)
      with nn have "int_of_string s = None"
        using int_of_string_integer_text [of s] by (cases "int_of_string s") auto
      then show ?thesis using JStr by simp
    qed (use nn in auto)
    then show ?thesis
      by (auto simp: to_money_def to_money_try_def)
  qed
qed

theorem to_money_absent_or_cents_witness:
  "(is_na_stripped (JStr '' n/a '') \<or> non_numeric (JStr '' n/a ''))
   \<and> to_money (JStr '' n/a '') = None
   \<and> non_numeric (JStr ''12,50'') \<and> to_money (JStr ''12,50'') = None
   \<and> non_numeric (JStr ''1 2'') \<and> to_money (JStr ''1 2'') = None
   \<and> non_numeric (JStr ''1-2'') \<and> to_money (JStr ''1-2'') = None
   \<and> non_numeric (JStr ''1__2'') \<and> to_money (JStr ''1__2'') = None"
proof -
  have a: "is_na_stripped (JStr '' n/a '')"
    by (simp add: is_na_stripped_def text_defs)
  have b: "non_numeric (JStr ''12,50'')" "non_numeric (JStr ''1 2'')"
    "non_numeric (JStr ''1-2'')" "non_numeric (JStr ''1__2'')"
    by (simp_all add: integer_text_def digit_groups_def text_defs)
  from to_money_absent_or_cents have c: "\<And>v. is_na_stripped v \<or> non_numeric v \<Longrightarrow> to_money v = None"
    by blast
  show ?thesis
    using a b c [of "JStr '' n/a ''"] c [of "JStr ''12,50''"] c [of "JStr ''1 2''"]
      c [of "JStr ''1-2''"] c [of "JStr ''1__2''"]
    by simp
qed

subsection \<open>Time fields\<close>

lemma float_of_100000: "float_of_string ''100000'' = Some (Fin 100000)"
proof -
  have "decimal ''100000'' = Some 100000"
    by (simp add: decimal_def split_first_def mantissa_def exponent_def pow10_def text_defs)
  moreover have "fl 100000 = Fin 100000"
    by (rule fl_Fin) simp_all
  ultimately show ?thesis
    by (simp add: float_of_string_def text_defs)
qed

lemma fl_1000: "fl 1000 = Fin 1000"
  by (rule fl_Fin) simp_all

lemma total_programada_sample:
  "total_programada [tariff_item ''PROGRAMADA'' (JStr ''100000'')] = Inr (Some (Fin 1000))"
  by (simp add: tariff_item_def tariff_type_def tariff_amount_def and_then_def is_na_def
      upper_def upper_char_def float_of_100000 fl_1000)

lemma total_tarifa_sample:
  "total_tarifa ''ECONOMICA'' [tariff_item ''ECONOMICA'' (JStr ''100000'')] = Inr (Some (Fin 1000))"
  by (simp add: tariff_item_def tariff_type_def tariff_amount_def and_then_def is_na_def
      upper_def upper_char_def float_of_100000 fl_1000)

lemma hhmm_or_str:
  "hhmm_or d (JStr s) = Inr (if length s = 4 then Some (take 2 s @ '':'' @ drop 2 s) else d)"
  by (simp add: hhmm_or_def and_then_def)

lemma step_one_sailing:
  assumes "c \<noteq> []" "total_of ts = Inr (Some x)"
  shows "sailing_step total_of d (sailing_item (JStr c) (JStr hs) (JStr ha) nm ts) out
         = Inr (dict_put (JStr c)
                  (Some x,
                   if length hs = 4 then Some (take 2 hs @ '':'' @ drop 2 hs) else d,
                   if length ha = 4 then Some (take 2 ha @ '':'' @ drop 2 ha) else d,
                   nm) out)"
  using assms
  by (simp add: sailing_item_def sailing_step_def and_then_def hhmm_or_str dict_set_def)

lemma programada_one_sailing:
  assumes "c \<noteq> []" "total_programada ts = Inr (Some x)"
  shows "totales_programada_por_sailing
           (day_response [sailing_item (JStr c) (JStr hs) (JStr ha) nm ts])
         = Inr [(JStr c, Some x,
                 if length hs = 4 then Some (take 2 hs @ '':'' @ drop 2 hs) else Some [],
                 if length ha = 4 then Some (take 2 ha @ '':'' @ drop 2 ha) else Some [],
                 nm)]"
  by (simp add: totales_programada_por_sailing_def day_response_def and_then_def
      step_one_sailing [where total_of = total_programada, OF assms])

lemma tarifa_one_sailing:
  assumes "c \<noteq> []" "total_tarifa tarifa ts = Inr (Some x)"
  shows "totales_por_tarifa
           (day_response [sailing_item (JStr c) (JStr hs) (JStr ha) nm ts]) tarifa
         = Inr [(JStr c, Some x,
                 if length hs = 4 then Some (take 2 hs @ '':'' @ drop 2 hs) else None,
                 if length ha = 4 then Some (take 2 ha @ '':'' @ drop 2 ha) else None,
                 nm)]"
  by (simp add: totales_por_tarifa_def day_response_def and_then_def
      step_one_sailing [where total_of = "total_tarifa tarifa", OF assms])

text \<open>
C9, as the code has it. A time is reformatted when it is a string of length four,
  whatever its characters: the first two, a colon, the last two. A string of any other
  length becomes the empty string in \<open>totales_programada_por_sailing\<close>, \<open>None\<close> in
  \<open>totales_por_tarifa\<close>, and is handed back unchanged by \<open>hhmm\<close> of
  \<^verbatim>\<open>get_web_prices\<close>. The counterexample is a time with letters in it, which is
  reformatted all the same, and a three-character time that \<open>hhmm\<close> leaves as it is.
\<close>

theorem time_reformatted_by_length:
  "totales_programada_por_sailing
     (day_response [sailing_item (JStr ''A1'') (JStr hs) (JStr ha) nm
                      [tariff_item ''PROGRAMADA'' (JStr ''100000'')]])
   = Inr [(JStr ''A1'', Some (Fin 1000),
           if length hs = 4 then Some (take 2 hs @ '':'' @ drop 2 hs) else Some [],
           if length ha = 4 then Some (take 2 ha @ '':'' @ drop 2 ha) else Some [],
           nm)]
   \<and> totales_por_tarifa
     (day_response [sailing_item (JStr ''A1'') (JStr hs) (JStr ha) nm
                      [tariff_item ''ECONOMICA'' (JStr ''100000'')]]) ''ECONOMICA''
   = Inr [(JStr ''A1'', Some (Fin 1000),
           if length hs = 4 then Some (take 2 hs @ '':'' @ drop 2 hs) else None,
           if length ha = 4 then Some (take 2 ha @ '':'' @ drop 2 ha) else None,
           nm)]
   \<and> hhmm (JStr hs) = JStr (if length hs = 4 then take 2 hs @ '':'' @ drop 2 hs else hs)"
proof (intro conjI)
  have ne: "''A1'' \<noteq> []" by simp
  show "totales_programada_por_sailing
     (day_response [sailing_item (JStr ''A1'') (JStr hs) (JStr ha) nm
                      [tariff_item ''PROGRAMADA'' (JStr ''100000'')]])
   = Inr [(JStr ''A1'', Some (Fin 1000),
           if length hs = 4 then Some (take 2 hs @ '':'' @ drop 2 hs) else Some [],
           if length ha = 4 then Some (take 2 ha @ '':'' @ drop 2 ha) else Some [],
           nm)]"
    by (rule programada_one_sailing [OF ne total_programada_sample])
  show "totales_por_tarifa
     (day_response [sailing_item (JStr ''A1'') (JStr hs) (JStr ha) nm
                      [tariff_item ''ECONOMICA'' (JStr ''100000'')]]) ''ECONOMICA''
   = Inr [(JStr ''A1'', Some (Fin 1000),
           if length hs = 4 then Some (take 2 hs @ '':'' @ drop 2 hs) else None,
           if length ha = 4 then Some (take 2 ha @ '':'' @ drop 2 ha) else None,
           nm)]"
    by (rule tarifa_one_sailing [OF ne total_tarifa_sample])
  show "hhmm (JStr hs) = JStr (if length hs = 4 then take 2 hs @ '':'' @ drop 2 hs else hs)"
    by (simp add: hhmm_def)
qed

theorem time_non_digits_counterexample:
  "\<not> list_all is_digit ''ab3d''
   \<and> totales_programada_por_sailing
       (day_response [sailing_item (JStr ''A1'') (JStr ''ab3d'') (JStr ''7'') (JStr ''Ship'')
                        [tariff_item ''PROGRAMADA'' (JStr ''100000'')]])
     = Inr [(JStr ''A1'', Some (Fin 1000), Some ''ab:3d'', Some [], JStr ''Ship'')]
   \<and> hhmm (JStr ''830'') = JStr ''830''"
proof -
  have ne: "''A1'' \<noteq> []" by simp
  have "\<not> list_all is_digit ''ab3d''"
    by (simp add: is_digit_def)
  moreover have "hhmm (JStr ''830'') = JStr ''830''"
    by (simp add: hhmm_def)
  ultimately show ?thesis
    using programada_one_sailing [OF ne total_programada_sample, of "''ab3d''" "''7''" "JStr ''Ship''"]
    by simp
qed

subsection \<open>The upstream call\<close>

lemma call_price_availability_returns:
  "\<exists>st body. call_price_availability oc = Inr (st, body)"
  by (auto simp: call_price_availability_def split: http_outcome.splits http_body.splits)

lemma call_price_availability_V2_returns:
  "\<exists>st body. call_price_availability_V2 oc = Inr (st, body)"
  by (auto simp: call_price_availability_V2_def split: http_outcome.splits http_body.splits)

text \<open>
C5. The Uruguayan client's \<open>call_price_availability_UYU\<close> has no \<^verbatim>\<open>try\<close>: a
  transport failure and a body that is not JSON leave it as exceptions, where the base
  client and V2 return the pair \<open>(500, message)\<close> on the same outcome.
\<close>

theorem call_price_availability_UYU_raises:
  "call_price_availability_UYU (Failure ''Read timed out'') = Inl (RequestException ''Read timed out'')
   \<and> call_price_availability_UYU (Response 502 (Garbage ''Expecting value''))
       = Inl (JSONDecodeError ''Expecting value'')
   \<and> call_price_availability (Failure ''Read timed out'') = Inr (500, JStr ''Read timed out'')
   \<and> call_price_availability_V2 (Failure ''Read timed out'') = Inr (500, JStr ''Read timed out'')"
  by (simp add: call_price_availability_UYU_def call_price_availability_def
      call_price_availability_V2_def)

subsection \<open>Cached credential\<close>

lemma and_then_Inr:
  "and_then m f = Inr y \<longleftrightarrow> (\<exists>x. m = Inr x \<and> f x = Inr y)"
  by (cases m) (auto simp: and_then_def)

lemma get_cached_token_Some:
  assumes "get_cached_token cf now = Some tok"
  shows "\<exists>data exp e. cf = Content data \<and> py_get data ''token'' JNull = Inr tok \<and> truthy tok
           \<and> py_get data ''exp'' JNull = Inr exp \<and> truthy exp \<and> py_int exp = Inr e \<and> now < e"
proof -
  from assms obtain data where cf: "cf = Content data"
    by (cases cf) (auto simp: get_cached_token_def)
  with assms have "get_cached_token_try data now = Inr (Some tok)"
    by (auto simp: get_cached_token_def split: sum.splits)
  then show ?thesis
    using cf by (auto simp: get_cached_token_try_def and_then_Inr split: if_splits)
qed

lemma get_cached_token_UYU_Some:
  assumes "get_cached_token_UYU cf now = Some tok"
  shows "\<exists>data exp. cf = Content data \<and> py_get data ''token'' JNull = Inr tok \<and> truthy tok
           \<and> py_get data ''exp'' (JInt 0) = Inr exp \<and> py_gt exp now = Inr True"
proof -
  from assms obtain data where cf: "cf = Content data"
    by (cases cf) (auto simp: get_cached_token_UYU_def)
  with assms have "get_cached_token_UYU_try data now = Inr (Some tok)"
    by (auto simp: get_cached_token_UYU_def split: sum.splits)
  then show ?thesis
    using cf by (auto simp: get_cached_token_UYU_try_def and_then_Inr split: if_splits)
qed

lemma debug_token_valid:
  assumes "debug_token decode env cf now = Inr (HasToken m valid x)"
  shows "valid \<longleftrightarrow> x = JNull \<or> (\<exists>e. py_int x = Inr e \<and> now < e)"
  using assms
  by (auto simp: debug_token_def Let_def and_then_Inr split: if_splits json.splits)

text \<open>
C3, as the code has it. A token comes back from the cache only when the stored expiry
  is set (truthy) and, as an integer, strictly later than the clock; with the expiry
  unset the base client returns nothing, and the Uruguayan client, which reads a missing
  expiry as zero, returns nothing at any non-negative time. Only \<open>debug_token\<close> reports
  a token without an expiry as valid: its flag is true exactly when the decoded payload
  has no \<^verbatim>\<open>exp\<close> or has one later than the clock.
\<close>

theorem cached_token_validity:
  "(get_cached_token cf now = Some tok \<longrightarrow>
      (\<exists>data exp e. cf = Content data \<and> py_get data ''token'' JNull = Inr tok \<and> truthy tok
         \<and> py_get data ''exp'' JNull = Inr exp \<and> truthy exp \<and> py_int exp = Inr e \<and> now < e))
   \<and> (get_cached_token_UYU cf now = Some tok \<longrightarrow>
      (\<exists>data exp. cf = Content data \<and> py_get data ''token'' JNull = Inr tok \<and> truthy tok
         \<and> py_get data ''exp'' (JInt 0) = Inr exp \<and> py_gt exp now = Inr True))
   \<and> (py_get data ''exp'' JNull = Inr JNull \<longrightarrow> get_cached_token (Content data) now = None)
   \<and> (py_get data ''exp'' (JInt 0) = Inr (JInt 0) \<and> 0 \<le> now \<longrightarrow>
        get_cached_token_UYU (Content data) now = None)
   \<and> (debug_token decode env cf now = Inr (HasToken m valid x) \<longrightarrow>
        (valid \<longleftrightarrow> x = JNull \<or> (\<exists>e. py_int x = Inr e \<and> now < e)))"
proof (intro conjI impI)
  assume "get_cached_token cf now = Some tok"
  then show "\<exists>data exp e. cf = Content data \<and> py_get data ''token'' JNull = Inr tok \<and> truthy tok
         \<and> py_get data ''exp'' JNull = Inr exp \<and> truthy exp \<and> py_int exp = Inr e \<and> now < e"
    by (rule get_cached_token_Some)
next
  assume "get_cached_token_UYU cf now = Some tok"
  then show "\<exists>data exp. cf = Content data \<and> py_get data ''token'' JNull = Inr tok \<and> truthy tok
         \<and> py_get data ''exp'' (JInt 0) = Inr exp \<and> py_gt exp now = Inr True"
    by (rule get_cached_token_UYU_Some)
next
  assume a: "py_get data ''exp'' JNull = Inr JNull"
  show "get_cached_token (Content data) now = None"
  proof (cases "get_cached_token (Content data) now")
    case (Some t)
    from get_cached_token_Some [OF Some] a show ?thesis by auto
  qed simp
next
  assume a: "py_get data ''exp'' (JInt 0) = Inr (JInt 0) \<and> 0 \<le> now"
  show "get_cached_token_UYU (Content data) now = None"
  proof (cases "get_cached_token_UYU (Content data) now")
    case (Some t)
    from get_cached_token_UYU_Some [OF Some] a show ?thesis by auto
  qed simp
next
  assume "debug_token decode env cf now = Inr (HasToken m valid x)"
  then show "valid \<longleftrightarrow> x = JNull \<or> (\<exists>e. py_int x = Inr e \<and> now < e)"
    by (rule debug_token_valid)
qed

theorem cached_token_validity_witness:
  "get_cached_token (Content (JObj [(''token'', JStr ''abc''), (''exp'', JInt 101)])) 100
     = Some (JStr ''abc'')
   \<and> py_int (JInt 101) = Inr 101 \<and> (100::int) < 101
   \<and> get_cached_token (Content (JObj [(''token'', JStr ''abc''), (''exp'', JInt 99)])) 100 = None
   \<and> py_get (JObj [(''token'', JStr ''abc'')]) ''exp'' JNull = Inr JNull
   \<and> get_cached_token (Content (JObj [(''token'', JStr ''abc'')])) 100 = None"
proof -
  have a: "py_get (JObj [(''token'', JStr ''abc'')]) ''exp'' JNull = Inr JNull"
    by simp
  have "get_cached_token (Content (JObj [(''token'', JStr ''abc'')])) 100 = None"
    using cached_token_validity [of _ 100 _ "JObj [(''token'', JStr ''abc'')]"] a by blast
  then show ?thesis
    by (simp add: get_cached_token_def get_cached_token_try_def and_then_def)
qed

theorem unset_expiry_counterexample:
  "get_cached_token (Content (JObj [(''token'', JStr ''abc''), (''exp'', JNull)])) 1700000000 = None
   \<and> get_cached_token (Content (JObj [(''token'', JStr ''abc'')])) 1700000000 = None
   \<and> get_cached_token_UYU (Content (JObj [(''token'', JStr ''abc'')])) 1700000000 = None"
  by (simp add: get_cached_token_def get_cached_token_try_def get_cached_token_UYU_def
      get_cached_token_UYU_try_def and_then_def)

subsection \<open>Omission rule of the extractors\<close>



















lemma tariff_item_lookups:
  "tariff_type (tariff_item tipo amt) = Inr (JStr tipo)"
  "tariff_amount (tariff_item tipo amt) = Inr amt"
  by (simp_all add: tariff_item_def tariff_type_def tariff_amount_def and_then_def)




subsection \<open>One record per sailing\<close>

lemma each_Inr_iff:
  "each f xs = Inr ys \<longleftrightarrow>
     length ys = length xs \<and> (\<forall>i<length xs. f (xs ! i) = Inr (ys ! i))"
proof (induction xs arbitrary: ys)
  case Nil
  then show ?case by auto
next
  case (Cons x xs)
  show ?case
  proof (cases ys)
    case Nil
    then show ?thesis by (auto simp: and_then_Inr)
  next
    case (Cons y ys')
    have "each f (x # xs) = Inr (y # ys') \<longleftrightarrow> f x = Inr y \<and> each f xs = Inr ys'"
      by (auto simp: and_then_Inr)
    also have "\<dots> \<longleftrightarrow> f x = Inr y \<and> length ys' = length xs
                 \<and> (\<forall>i<length xs. f (xs ! i) = Inr (ys' ! i))"
      using Cons.IH by simp
    also have "\<dots> \<longleftrightarrow> length (y # ys') = length (x # xs)
                 \<and> (\<forall>i<length (x # xs). f ((x # xs) ! i) = Inr ((y # ys') ! i))"
      by (auto simp: nth_Cons split: nat.splits)
    finally show ?thesis using Cons by simp
  qed
qed

lemma amount_after_Cons:
  assumes "tariff_amount t = Inr amt"
  shows "amount_after a0 l (t # ts)
         = (if tariff_type t = Inr (JStr l) then amount_after (to_money amt) l ts
            else amount_after a0 l ts)"
  using assms
  by (cases "filter (\<lambda>t. tariff_type t = Inr (JStr l)) ts") (auto simp: amount_after_def)

lemma full_totals_last:
  "full_totals ts (p0, f0) = Inr (p, f) \<Longrightarrow>
     p = amount_after p0 ''PROGRAMADA'' ts \<and> f = amount_after f0 ''FLEXIBLE'' ts"
proof (induction ts arbitrary: p0 f0)
  case Nil
  then show ?case by (simp add: amount_after_def)
next
  case (Cons t ts)
  from Cons.prems obtain tp amt where ty: "tariff_type t = Inr tp"
    and am: "tariff_amount t = Inr amt"
    and rest: "full_totals ts
                 (if tp = JStr ''PROGRAMADA'' then (to_money amt, f0)
                  else if tp = JStr ''FLEXIBLE'' then (p0, to_money amt)
                  else (p0, f0)) = Inr (p, f)"
    by (auto simp: and_then_Inr)
  show ?case
  proof (cases "tp = JStr ''PROGRAMADA''")
    case True
    with rest have "full_totals ts (to_money amt, f0) = Inr (p, f)" by simp
    from Cons.IH [OF this] show ?thesis
      using ty True by (simp add: amount_after_Cons [OF am])
  next
    case np: False
    show ?thesis
    proof (cases "tp = JStr ''FLEXIBLE''")
      case True
      with rest np have "full_totals ts (p0, to_money amt) = Inr (p, f)" by simp
      from Cons.IH [OF this] show ?thesis
        using ty True by (simp add: amount_after_Cons [OF am])
    next
      case False
      with rest np have "full_totals ts (p0, f0) = Inr (p, f)" by simp
      from Cons.IH [OF this] show ?thesis
        using ty np False by (simp add: amount_after_Cons [OF am])
    qed
  qed
qed

lemma full_item_amounts:
  assumes "full_item_of s = Inr it"
  shows "\<exists>ts. sailing_totals s = Inr ts
           \<and> full_item.turista it = last_amount ''PROGRAMADA'' ts
           \<and> full_item.business it = last_amount ''FLEXIBLE'' ts
           \<and> diff it = (case (full_item.turista it, full_item.business it) of
                          (Some p, Some f) \<Rightarrow> Some (float_sub f p)
                        | _ \<Rightarrow> None)"
proof -
  from assms obtain tct ts code d a nm av p f where tct: "py_get s ''c_TCT_TariffChargesTotals'' (JArr []) = Inr tct"
    and ts: "py_iter tct = Inr ts"
    and ft: "full_totals ts (None, None) = Inr (p, f)"
    and it: "it = \<lparr> sailingCode = code, dep = d, arr = a, ship = nm, available = av,
            turista = p, business = f,
            diff = (case (p, f) of (Some p', Some f') \<Rightarrow> Some (float_sub f' p') | _ \<Rightarrow> None) \<rparr>"
    unfolding full_item_of_def by (auto simp: and_then_Inr)
  have "sailing_totals s = Inr ts"
    using tct ts by (simp add: sailing_totals_def and_then_def)
  moreover from full_totals_last [OF ft]
  have "p = last_amount ''PROGRAMADA'' ts" "f = last_amount ''FLEXIBLE'' ts"
    by (simp_all add: last_amount_def)
  ultimately show ?thesis
    using it by (simp split: option.split)
qed

lemma last_amount_none:
  "\<forall>t\<in>set ts. tariff_type t \<noteq> Inr (JStr l) \<Longrightarrow> last_amount l ts = None"
proof -
  assume "\<forall>t\<in>set ts. tariff_type t \<noteq> Inr (JStr l)"
  then have "filter (\<lambda>t. tariff_type t = Inr (JStr l)) ts = []"
    by (simp add: filter_empty_conv)
  then show ?thesis
    by (simp add: last_amount_def amount_after_def)
qed

lemma full_totals_items:
  "full_totals (map (\<lambda>(tipo, amt). tariff_item tipo amt) tas) (p0, f0)
   = Inr (amount_after p0 ''PROGRAMADA'' (map (\<lambda>(tipo, amt). tariff_item tipo amt) tas),
          amount_after f0 ''FLEXIBLE'' (map (\<lambda>(tipo, amt). tariff_item tipo amt) tas))"
proof (induction tas arbitrary: p0 f0)
  case Nil
  then show ?case by (simp add: amount_after_def)
next
  case (Cons ta tas)
  obtain tipo amt where ta: "ta = (tipo, amt)" by (cases ta)
  show ?case
    using Cons.IH
    by (simp add: ta tariff_item_lookups and_then_def
        amount_after_Cons [OF tariff_item_lookups(2)])
qed

lemma full_item_of_shaped:
  "full_item_of (sailing_item code hs ha nm (map (\<lambda>(tipo, amt). tariff_item tipo amt) tas))
   = Inr \<lparr> sailingCode = code, dep = hs, arr = ha, ship = nm, available = False,
           turista = last_amount ''PROGRAMADA'' (map (\<lambda>(tipo, amt). tariff_item tipo amt) tas),
           business = last_amount ''FLEXIBLE'' (map (\<lambda>(tipo, amt). tariff_item tipo amt) tas),
           diff = (case (last_amount ''PROGRAMADA'' (map (\<lambda>(tipo, amt). tariff_item tipo amt) tas),
                         last_amount ''FLEXIBLE'' (map (\<lambda>(tipo, amt). tariff_item tipo amt) tas)) of
                     (Some p, Some f) \<Rightarrow> Some (float_sub f p)
                   | _ \<Rightarrow> None) \<rparr>"
  by (simp add: full_item_of_def sailing_item_def and_then_def full_totals_items last_amount_def)

text \<open>
C10. With \<open>sailings\<close> the upstream \<^verbatim>\<open>sailingprice\<close> list, \<open>fetch_day_full\<close> on a
  status of 200 returns exactly the rows \<open>items\<close> that have one record per sailing, the
  record at each position built from the sailing at that position; it returns whenever
  every sailing converts, and then always with status 200. In the record of a sailing the
  \<^verbatim>\<open>turista\<close> amount is the converted total of its last \<^verbatim>\<open>PROGRAMADA\<close> item and the
  \<^verbatim>\<open>business\<close> amount that of its last \<^verbatim>\<open>FLEXIBLE\<close> item: a sailing with no item of
  a tariff has no amount in that field, whatever it has in the other, and the differential
  is absent exactly when one of the two amounts is. A sailing of the usual shape always
  converts, to the record written out in the last part, so it is listed whether or not it
  has totals.
\<close>

theorem fetch_day_full_one_record_per_sailing:
  assumes "py_get data ''sailingprice'' (JArr []) = Inr sp" and "py_iter sp = Inr sailings"
  shows "(fetch_day_full (200, data) = Inr (200, Rows items) \<longleftrightarrow>
            length items = length sailings
            \<and> (\<forall>i<length sailings. full_item_of (sailings ! i) = Inr (items ! i)))
       \<and> (\<forall>r. fetch_day_full (200, data) = Inr r \<longrightarrow> (\<exists>out. r = (200, Rows out)))
       \<and> (\<forall>s it. full_item_of s = Inr it \<longrightarrow>
             (\<exists>ts. sailing_totals s = Inr ts
                \<and> full_item.turista it = last_amount ''PROGRAMADA'' ts
                \<and> full_item.business it = last_amount ''FLEXIBLE'' ts
                \<and> ((\<forall>t\<in>set ts. tariff_type t \<noteq> Inr (JStr ''PROGRAMADA'')) \<longrightarrow>
                     full_item.turista it = None)
                \<and> ((\<forall>t\<in>set ts. tariff_type t \<noteq> Inr (JStr ''FLEXIBLE'')) \<longrightarrow>
                     full_item.business it = None))
             \<and> (diff it = None \<longleftrightarrow>
                  full_item.turista it = None \<or> full_item.business it = None))
       \<and> full_item_of (sailing_item code hs ha nm (map (\<lambda>(tipo, amt). tariff_item tipo amt) tas))
          = Inr \<lparr> sailingCode = code, dep = hs, arr = ha, ship = nm, available = False,
                  turista = last_amount ''PROGRAMADA'' (map (\<lambda>(tipo, amt). tariff_item tipo amt) tas),
                  business = last_amount ''FLEXIBLE'' (map (\<lambda>(tipo, amt). tariff_item tipo amt) tas),
                  diff = (case (last_amount ''PROGRAMADA'' (map (\<lambda>(tipo, amt). tariff_item tipo amt) tas),
                                last_amount ''FLEXIBLE'' (map (\<lambda>(tipo, amt). tariff_item tipo amt) tas)) of
                            (Some p, Some f) \<Rightarrow> Some (float_sub f p)
                          | _ \<Rightarrow> None) \<rparr>"
proof (intro conjI allI impI)
  have eq: "fetch_day_full (200, data)
            = and_then (each full_item_of sailings) (\<lambda>out. Inr (200, Rows out))"
    using assms by (simp add: fetch_day_full_def and_then_def)
  show "fetch_day_full (200, data) = Inr (200, Rows items) \<longleftrightarrow>
            length items = length sailings
            \<and> (\<forall>i<length sailings. full_item_of (sailings ! i) = Inr (items ! i))"
    unfolding eq by (simp add: and_then_Inr each_Inr_iff)
  show "\<exists>out. r = (200, Rows out)" if "fetch_day_full (200, data) = Inr r" for r
    using that unfolding eq by (auto simp: and_then_Inr)
next
  fix s it
  assume a: "full_item_of s = Inr it"
  from full_item_amounts [OF a] obtain ts where ts: "sailing_totals s = Inr ts"
    and p: "full_item.turista it = last_amount ''PROGRAMADA'' ts"
    and f: "full_item.business it = last_amount ''FLEXIBLE'' ts"
    and d: "diff it = (case (full_item.turista it, full_item.business it) of
                          (Some p, Some f) \<Rightarrow> Some (float_sub f p)
                        | _ \<Rightarrow> None)"
    by blast
  show "\<exists>ts. sailing_totals s = Inr ts
                \<and> full_item.turista it = last_amount ''PROGRAMADA'' ts
                \<and> full_item.business it = last_amount ''FLEXIBLE'' ts
                \<and> ((\<forall>t\<in>set ts. tariff_type t \<noteq> Inr (JStr ''PROGRAMADA'')) \<longrightarrow>
                     full_item.turista it = None)
                \<and> ((\<forall>t\<in>set ts. tariff_type t \<noteq> Inr (JStr ''FLEXIBLE'')) \<longrightarrow>
                     full_item.business it = None)"
    using ts p f last_amount_none by auto
  show "diff it = None \<longleftrightarrow> full_item.turista it = None \<or> full_item.business it = None"
    using d by (auto split: option.splits)
next
  show "full_item_of (sailing_item code hs ha nm (map (\<lambda>(tipo, amt). tariff_item tipo amt) tas))
          = Inr \<lparr> sailingCode = code, dep = hs, arr = ha, ship = nm, available = False,
                  turista = last_amount ''PROGRAMADA'' (map (\<lambda>(tipo, amt). tariff_item tipo amt) tas),
                  business = last_amount ''FLEXIBLE'' (map (\<lambda>(tipo, amt). tariff_item tipo amt) tas),
                  diff = (case (last_amount ''PROGRAMADA'' (map (\<lambda>(tipo, amt). tariff_item tipo amt) tas),
                                last_amount ''FLEXIBLE'' (map (\<lambda>(tipo, amt). tariff_item tipo amt) tas)) of
                            (Some p, Some f) \<Rightarrow> Some (float_sub f p)
                          | _ \<Rightarrow> None) \<rparr>"
    by (rule full_item_of_shaped)
qed

lemma to_money_100000: "to_money (JStr ''100000'') = Some (Fin 1000)"
proof -
  have "int_of_string ''100000'' = Some 100000"
    by (simp add: text_defs)
  moreover have "\<not> is_na_stripped (JStr ''100000'')"
    by (simp add: is_na_stripped_def text_defs)
  moreover have "fl (100000 / 100) = Fin 1000"
    using fl_Fin [of 1000] by simp
  moreover have "\<not> dbl_overflow \<le> \<bar>of_int 100000\<bar>"
    by (rule not_overflow) simp
  ultimately show ?thesis
    by (simp add: to_money_def to_money_try_def)
qed

lemma to_money_na: "to_money (JStr ''N/A'') = None"
  by (simp add: to_money_def to_money_try_def is_na_stripped_def text_defs)

lemma full_item_flexible_only:
  "full_item_of (sailing_item (JStr ''A1'') (JStr ''0830'') (JStr ''0945'') (JStr ''Ship'')
                   [tariff_item ''FLEXIBLE'' (JStr ''100000'')])
   = Inr \<lparr> sailingCode = JStr ''A1'', dep = JStr ''0830'', arr = JStr ''0945'', ship = JStr ''Ship'',
           available = False, turista = None, business = Some (Fin 1000), diff = None \<rparr>"
  using full_item_of_shaped [of "JStr ''A1''" "JStr ''0830''" "JStr ''0945''" "JStr ''Ship''"
      "[(''FLEXIBLE'', JStr ''100000'')]"]
  by (simp add: last_amount_def amount_after_def tariff_item_lookups to_money_100000)

lemma full_item_na:
  "full_item_of (sailing_item (JStr ''B2'') (JStr ''1100'') (JStr ''1215'') (JStr ''Ship'')
                   [tariff_item ''PROGRAMADA'' (JStr ''N/A'')])
   = Inr \<lparr> sailingCode = JStr ''B2'', dep = JStr ''1100'', arr = JStr ''1215'', ship = JStr ''Ship'',
           available = False, turista = None, business = None, diff = None \<rparr>"
  using full_item_of_shaped [of "JStr ''B2''" "JStr ''1100''" "JStr ''1215''" "JStr ''Ship''"
      "[(''PROGRAMADA'', JStr ''N/A'')]"]
  by (simp add: last_amount_def amount_after_def tariff_item_lookups to_money_na)

theorem fetch_day_full_one_record_per_sailing_witness:
  "py_get (day_response
             [sailing_item (JStr ''A1'') (JStr ''0830'') (JStr ''0945'') (JStr ''Ship'')
                [tariff_item ''FLEXIBLE'' (JStr ''100000'')],
              sailing_item (JStr ''B2'') (JStr ''1100'') (JStr ''1215'') (JStr ''Ship'')
                [tariff_item ''PROGRAMADA'' (JStr ''N/A'')]])
      ''sailingprice'' (JArr [])
     = Inr (JArr [sailing_item (JStr ''A1'') (JStr ''0830'') (JStr ''0945'') (JStr ''Ship'')
                    [tariff_item ''FLEXIBLE'' (JStr ''100000'')],
                  sailing_item (JStr ''B2'') (JStr ''1100'') (JStr ''1215'') (JStr ''Ship'')
                    [tariff_item ''PROGRAMADA'' (JStr ''N/A'')]])
   \<and> fetch_day_full
       (200, day_response
               [sailing_item (JStr ''A1'') (JStr ''0830'') (JStr ''0945'') (JStr ''Ship'')
                  [tariff_item ''FLEXIBLE'' (JStr ''100000'')],
                sailing_item (JStr ''B2'') (JStr ''1100'') (JStr ''1215'') (JStr ''Ship'')
                  [tariff_item ''PROGRAMADA'' (JStr ''N/A'')]])
     = Inr (200, Rows [\<lparr> sailingCode = JStr ''A1'', dep = JStr ''0830'', arr = JStr ''0945'',
                          ship = JStr ''Ship'', available = False, turista = None,
                          business = Some (Fin 1000), diff = None \<rparr>,
                       \<lparr> sailingCode = JStr ''B2'', dep = JStr ''1100'', arr = JStr ''1215'',
                          ship = JStr ''Ship'', available = False, turista = None,
                          business = None, diff = None \<rparr>])"
proof -
  let ?s1 = "sailing_item (JStr ''A1'') (JStr ''0830'') (JStr ''0945'') (JStr ''Ship'')
               [tariff_item ''FLEXIBLE'' (JStr ''100000'')]"
  let ?s2 = "sailing_item (JStr ''B2'') (JStr ''1100'') (JStr ''1215'') (JStr ''Ship'')
               [tariff_item ''PROGRAMADA'' (JStr ''N/A'')]"
  let ?i1 = "\<lparr> sailingCode = JStr ''A1'', dep = JStr ''0830'', arr = JStr ''0945'',
                ship = JStr ''Ship'', available = False, turista = None,
                business = Some (Fin 1000), diff = None \<rparr>"
  let ?i2 = "\<lparr> sailingCode = JStr ''B2'', dep = JStr ''1100'', arr = JStr ''1215'',
                ship = JStr ''Ship'', available = False, turista = None,
                business = None, diff = None \<rparr>"
  have g: "py_get (day_response [?s1, ?s2]) ''sailingprice'' (JArr []) = Inr (JArr [?s1, ?s2])"
    by (simp add: day_response_def)
  have i: "py_iter (JArr [?s1, ?s2]) = Inr [?s1, ?s2]"
    by simp
  have each: "\<forall>i<length [?s1, ?s2]. full_item_of ([?s1, ?s2] ! i) = Inr ([?i1, ?i2] ! i)"
    using full_item_flexible_only full_item_na by (simp add: nth_Cons' All_less_Suc)
  from fetch_day_full_one_record_per_sailing [OF g i, of "[?i1, ?i2]"] each
  have "fetch_day_full (200, day_response [?s1, ?s2]) = Inr (200, Rows [?i1, ?i2])"
    by simp
  then show ?thesis using g by simp
qed

subsection \<open>Precedence in the merge\<close>

lemma py_sorted_set: "py_sorted ks = Inr codes \<Longrightarrow> set codes = set ks"
  by (auto simp: py_sorted_def split: if_splits)

lemma py_sorted_strings: "list_all is_str ks \<Longrightarrow> py_sorted ks = Inr (sort_key str_of ks)"
  by (simp add: py_sorted_def)

lemma merge_pro_rows:
  assumes "merge_pro cur mt mb mp me = Inr rows"
  shows "set rows = merge_row cur mt mb mp me ` set (all_codes mt mb mp me)"
proof -
  from assms obtain codes where c: "py_sorted (all_codes mt mb mp me) = Inr codes"
    and r: "rows = sort_key sort_time (map (merge_row cur mt mb mp me) codes)"
    by (auto simp: merge_pro_def all_codes_def and_then_Inr)
  show ?thesis
    using py_sorted_set [OF c] r by simp
qed

lemma merge_row_fields:
  "codigo (merge_row cur mt mb mp me c) = c"
  "barco (merge_row cur mt mb mp me c)
   = first_truthy [name_of (get4 mt c), name_of (get4 mb c), name_of (get4 mp c), name_of (get4 me c)]"
  "hora_salida (merge_row cur mt mb mp me c) = first_time [dep_of (get4 mt c), dep_of (get4 me c)]"
  "hora_llegada (merge_row cur mt mb mp me c) = first_time [arr_of (get4 mt c), arr_of (get4 me c)]"
  "pro_row.turista (merge_row cur mt mb mp me c) = fmt cur (amount_of (get4 mt c))"
  "pro_row.business (merge_row cur mt mb mp me c) = fmt cur (amount_of (get4 mb c))"
  "primera (merge_row cur mt mb mp me c) = fmt cur (amount_of (get4 mp c))"
  "economica (merge_row cur mt mb mp me c) = fmt cur (amount_of (get4 me c))"
  by (simp_all add: merge_row_def name_of_def dep_of_def arr_of_def amount_of_def py_or_def
      str_or_def split: prod.splits)

text \<open>
C1, as the code has it. The merge returns a table whenever the codes are strings, the
  table has a record for every code in the union of the four mappings and no other, and
  in the record of a code the vessel name is the first non-empty one in the order
  tourist, business, first, economy, while the departure and the arrival time are the
  first non-empty ones of the tourist and the economy class only: the times of the
  business and the first class are read into \<^verbatim>\<open>_\<close> and dropped. The counterexample is
  a day on which only the business class answers a sailing, with the time 08:45: the
  merged record has no departure time.
\<close>

theorem merged_names_and_times:
  "(list_all is_str (all_codes mt mb mp me) \<longrightarrow> (\<exists>rows. merge_pro cur mt mb mp me = Inr rows))
   \<and> (merge_pro cur mt mb mp me = Inr rows \<and> c \<in> set (all_codes mt mb mp me) \<longrightarrow>
        (\<exists>r\<in>set rows. codigo r = c
           \<and> barco r = first_truthy [name_of (get4 mt c), name_of (get4 mb c),
                                      name_of (get4 mp c), name_of (get4 me c)]
           \<and> hora_salida r = first_time [dep_of (get4 mt c), dep_of (get4 me c)]
           \<and> hora_llegada r = first_time [arr_of (get4 mt c), arr_of (get4 me c)]))
   \<and> (merge_pro cur mt mb mp me = Inr rows \<and> r \<in> set rows \<longrightarrow>
        codigo r \<in> set (all_codes mt mb mp me))"
proof (intro conjI impI)
  assume "list_all is_str (all_codes mt mb mp me)"
  then show "\<exists>rows. merge_pro cur mt mb mp me = Inr rows"
    by (simp add: merge_pro_def all_codes_def [symmetric] py_sorted_strings and_then_def)
next
  assume a: "merge_pro cur mt mb mp me = Inr rows \<and> c \<in> set (all_codes mt mb mp me)"
  then have "merge_row cur mt mb mp me c \<in> set rows"
    using merge_pro_rows [of cur mt mb mp me rows] by blast
  then show "\<exists>r\<in>set rows. codigo r = c
           \<and> barco r = first_truthy [name_of (get4 mt c), name_of (get4 mb c),
                                      name_of (get4 mp c), name_of (get4 me c)]
           \<and> hora_salida r = first_time [dep_of (get4 mt c), dep_of (get4 me c)]
           \<and> hora_llegada r = first_time [arr_of (get4 mt c), arr_of (get4 me c)]"
    using merge_row_fields [of cur mt mb mp me c] by blast
next
  assume a: "merge_pro cur mt mb mp me = Inr rows \<and> r \<in> set rows"
  then obtain c' where "c' \<in> set (all_codes mt mb mp me)" "r = merge_row cur mt mb mp me c'"
    using merge_pro_rows [of cur mt mb mp me rows] by blast
  then show "codigo r \<in> set (all_codes mt mb mp me)"
    by (simp add: merge_row_fields)
qed


theorem merged_names_and_times_witness:
  "list_all is_str
     (all_codes [] [(JStr ''A1'', Some (Fin 1500), Some ''08:45'', Some ''10:00'', JStr ''Ship'')] []
        [(JStr ''A1'', Some (Fin 900), Some ''08:30'', None, JNull)])
   \<and> (\<exists>rows. merge_pro ''ARS'' []
          [(JStr ''A1'', Some (Fin 1500), Some ''08:45'', Some ''10:00'', JStr ''Ship'')] []
          [(JStr ''A1'', Some (Fin 900), Some ''08:30'', None, JNull)] = Inr rows
        \<and> (\<exists>r\<in>set rows. codigo r = JStr ''A1'' \<and> barco r = JStr ''Ship''
              \<and> hora_salida r = Some ''08:30'' \<and> hora_llegada r = None))"
proof -
  let ?mb = "[(JStr ''A1'', Some (Fin 1500), Some ''08:45'', Some ''10:00'', JStr ''Ship'')]"
  let ?me = "[(JStr ''A1'', Some (Fin 900), Some ''08:30'', None, JNull)]"
  have codes: "all_codes [] ?mb [] ?me = [JStr ''A1'']"
    by (simp add: all_codes_def key_union_def key_add_def key_eq_def)
  then have strs: "list_all is_str (all_codes [] ?mb [] ?me)"
    by simp
  have mem: "JStr ''A1'' \<in> set (all_codes [] ?mb [] ?me)"
    using codes by simp
  note inst = merged_names_and_times [of "[]" ?mb "[]" ?me "''ARS''" _ "JStr ''A1''"]
  from inst strs obtain rows where rows: "merge_pro ''ARS'' [] ?mb [] ?me = Inr rows"
    by blast
  with inst [of rows] mem obtain r where "r \<in> set rows" "codigo r = JStr ''A1''"
    "barco r = first_truthy [name_of (get4 [] (JStr ''A1'')), name_of (get4 ?mb (JStr ''A1'')),
                            name_of (get4 [] (JStr ''A1'')), name_of (get4 ?me (JStr ''A1''))]"
    "hora_salida r = first_time [dep_of (get4 [] (JStr ''A1'')), dep_of (get4 ?me (JStr ''A1''))]"
    "hora_llegada r = first_time [arr_of (get4 [] (JStr ''A1'')), arr_of (get4 ?me (JStr ''A1''))]"
    by blast
  then have "r \<in> set rows \<and> codigo r = JStr ''A1'' \<and> barco r = JStr ''Ship''
              \<and> hora_salida r = Some ''08:30'' \<and> hora_llegada r = None"
    by (simp add: get4_def key_eq_def name_of_def dep_of_def arr_of_def str_truthy_def)
  then show ?thesis
    using strs rows by blast
qed

lemma normalize_sample:
  "normalize_date_to_yymmdd ''2025-03-14'' = Inr (''25'', ''03'', ''14'')"
  by (simp add: normalize_date_to_yymmdd_def strip_def is_space_def is_digit_def unpack3_def
      zfill_def)

lemma programada_empty_day: "totales_programada_por_sailing (day_response []) = Inr []"
  by (simp add: totales_programada_por_sailing_def day_response_def and_then_def)

lemma tarifa_empty_day: "totales_por_tarifa (day_response []) tarifa = Inr []"
  by (simp add: totales_por_tarifa_def day_response_def and_then_def)

lemma fmt_1000: "fmt ''ARS'' (Some (Fin 1000)) = Some ''ARS 1.000,00''"
  by (simp add: fmt_def round_half_even_def Let_def group3_def digit_char_def replace_def)

lemma merge_business_only:
  "merge_pro ''ARS'' [] [(JStr ''A1'', Some (Fin 1000), Some ''08:45'', Some ''10:00'', JStr ''Ship'')]
     [] []
   = Inr [\<lparr> hora_salida = None, hora_llegada = None, barco = JStr ''Ship'', codigo = JStr ''A1'',
            turista = None, business = Some ''ARS 1.000,00'', diferencia = None,
            economica = None, primera = None \<rparr>]"
  by (simp add: merge_pro_def key_union_def key_add_def py_sorted_def and_then_def merge_row_def
      get4_def key_eq_def str_or_def str_truthy_def py_or_def amount_truthy_def fmt_1000)
    (simp add: fmt_def)

theorem business_time_ignored_counterexample:
  "totales_programada_por_sailing
     (day_response [sailing_item (JStr ''A1'') (JStr ''0845'') (JStr ''1000'') (JStr ''Ship'')
                      [tariff_item ''PROGRAMADA'' (JStr ''100000'')]])
   = Inr [(JStr ''A1'', Some (Fin 1000), Some ''08:45'', Some ''10:00'', JStr ''Ship'')]
   \<and> fetch_day_web_prices_pro_V2 ''2025-03-14''
       (Response 200 (Json (day_response [])))
       (Response 200 (Json (day_response
          [sailing_item (JStr ''A1'') (JStr ''0845'') (JStr ''1000'') (JStr ''Ship'')
             [tariff_item ''PROGRAMADA'' (JStr ''100000'')]])))
       (Response 200 (Json (day_response [])))
       (Response 200 (Json (day_response [])))
   = Inr (200, Rows [\<lparr> hora_salida = None, hora_llegada = None, barco = JStr ''Ship'',
                        codigo = JStr ''A1'', turista = None, business = Some ''ARS 1.000,00'',
                        diferencia = None, economica = None, primera = None \<rparr>])"
proof -
  have ne: "''A1'' \<noteq> []" by simp
  have b: "totales_programada_por_sailing
     (day_response [sailing_item (JStr ''A1'') (JStr ''0845'') (JStr ''1000'') (JStr ''Ship'')
                      [tariff_item ''PROGRAMADA'' (JStr ''100000'')]])
   = Inr [(JStr ''A1'', Some (Fin 1000), Some ''08:45'', Some ''10:00'', JStr ''Ship'')]"
    using programada_one_sailing [OF ne total_programada_sample, of "''0845''" "''1000''" "JStr ''Ship''"]
    by simp
  show ?thesis
    by (simp add: b fetch_day_web_prices_pro_V2_def post_day_pricing_def normalize_sample
        call_price_availability_V2_def and_then_def programada_empty_day tarifa_empty_day
        merge_business_only)
qed

subsection \<open>Failures of the four calls\<close>

lemma tarifa_empty_object: "totales_por_tarifa (JObj []) tarifa = Inr []"
  by (simp add: totales_por_tarifa_def and_then_def)

lemma merge_no_economy:
  assumes "merge_pro cur mt mb mp [] = Inr rows" and "r \<in> set rows"
  shows "economica r = None"
proof -
  from merge_pro_rows [OF assms(1)] assms(2)
  obtain c where "r = merge_row cur mt mb mp [] c"
    by blast
  then show ?thesis
    by (simp add: merge_row_fields get4_def amount_of_def fmt_def)
qed

lemma V2_checks:
  assumes "normalize_date_to_yymmdd fecha = Inr ymd"
  shows "fetch_day_web_prices_pro_V2 fecha (Response st_t (Json raw_t)) (Response st_b (Json raw_b))
           (Response st_p (Json raw_p)) (Response st_e (Json raw_e))
         = (if st_t \<noteq> 200 then Inr (st_t, Raw raw_t)
            else if st_b \<noteq> 200 then Inr (st_b, Raw raw_b)
            else if st_p \<noteq> 200 then Inr (st_p, Raw raw_p)
            else
              and_then (totales_programada_por_sailing raw_t) (\<lambda>mapa_t.
              and_then (totales_programada_por_sailing raw_b) (\<lambda>mapa_b.
              and_then (totales_programada_por_sailing raw_p) (\<lambda>mapa_p.
              and_then (if st_e = 200 then totales_por_tarifa raw_e ''ECONOMICA'' else Inr []) (\<lambda>mapa_e.
              and_then (merge_pro ''ARS'' mapa_t mapa_b mapa_p mapa_e) (\<lambda>results.
              Inr (200, Rows results)))))))"
  using assms
  by (simp add: fetch_day_web_prices_pro_V2_def post_day_pricing_def
      call_price_availability_V2_def and_then_def)

lemma V2_economy_empty:
  assumes "normalize_date_to_yymmdd fecha = Inr ymd"
  shows "fetch_day_web_prices_pro_V2 fecha (Response st_t (Json raw_t)) (Response st_b (Json raw_b))
           (Response st_p (Json raw_p)) (Response 200 Empty)
         = (if st_t \<noteq> 200 then Inr (st_t, Raw raw_t)
            else if st_b \<noteq> 200 then Inr (st_b, Raw raw_b)
            else if st_p \<noteq> 200 then Inr (st_p, Raw raw_p)
            else
              and_then (totales_programada_por_sailing raw_t) (\<lambda>mapa_t.
              and_then (totales_programada_por_sailing raw_b) (\<lambda>mapa_b.
              and_then (totales_programada_por_sailing raw_p) (\<lambda>mapa_p.
              and_then (merge_pro ''ARS'' mapa_t mapa_b mapa_p []) (\<lambda>results.
              Inr (200, Rows results))))))"
  using assms
  by (simp add: fetch_day_web_prices_pro_V2_def post_day_pricing_def
      call_price_availability_V2_def and_then_def tarifa_empty_object)

lemma UYU_checks:
  assumes "normalize_date_to_yymmdd fecha = Inr ymd"
  shows "fetch_day_web_prices_pro_UYU fecha (Response st_t (Json raw_t)) (Response st_b (Json raw_b))
           (Response st_p (Json raw_p)) (Response st_e (Json raw_e))
         = (if st_t \<noteq> 200 then Inr (st_t, Raw raw_t)
            else
              and_then (totales_programada_por_sailing raw_t) (\<lambda>mapa_t.
              and_then (totales_programada_por_sailing raw_b) (\<lambda>mapa_b.
              and_then (totales_programada_por_sailing raw_p) (\<lambda>mapa_p.
              and_then (if st_e = 200 then totales_por_tarifa raw_e ''ECONOMICA'' else Inr []) (\<lambda>mapa_e.
              and_then (merge_pro ''UYU'' mapa_t mapa_b mapa_p mapa_e) (\<lambda>results.
              Inr (200, Rows results)))))))"
  using assms
  by (simp add: fetch_day_web_prices_pro_UYU_def payload_then_call_def
      call_price_availability_UYU_def and_then_def)

lemma UYU_economy_empty:
  assumes "normalize_date_to_yymmdd fecha = Inr ymd"
  shows "fetch_day_web_prices_pro_UYU fecha (Response st_t (Json raw_t)) (Response st_b (Json raw_b))
           (Response st_p (Json raw_p)) (Response 200 Empty)
         = (if st_t \<noteq> 200 then Inr (st_t, Raw raw_t)
            else
              and_then (totales_programada_por_sailing raw_t) (\<lambda>mapa_t.
              and_then (totales_programada_por_sailing raw_b) (\<lambda>mapa_b.
              and_then (totales_programada_por_sailing raw_p) (\<lambda>mapa_p.
              and_then (merge_pro ''UYU'' mapa_t mapa_b mapa_p []) (\<lambda>results.
              Inr (200, Rows results))))))"
  using assms
  by (simp add: fetch_day_web_prices_pro_UYU_def payload_then_call_def
      call_price_availability_UYU_def and_then_def tarifa_empty_object)

lemma economy_absent_V2:
  assumes d: "normalize_date_to_yymmdd fecha = Inr ymd" and "st_e \<noteq> 200"
    and res: "fetch_day_web_prices_pro_V2 fecha (Response st_t (Json raw_t))
                (Response st_b (Json raw_b)) (Response st_p (Json raw_p))
                (Response st_e (Json raw_e)) = Inr (st, Rows rows)"
    and r: "r \<in> set rows"
  shows "st = 200 \<and> economica r = None"
proof -
  from res obtain mt mb mp where "merge_pro ''ARS'' mt mb mp [] = Inr rows" "st = 200"
    unfolding V2_checks [OF d] using assms(2)
    by (auto simp: and_then_Inr split: if_splits)
  then show ?thesis
    using merge_no_economy r by blast
qed

lemma economy_absent_UYU:
  assumes d: "normalize_date_to_yymmdd fecha = Inr ymd" and "st_e \<noteq> 200"
    and res: "fetch_day_web_prices_pro_UYU fecha (Response st_t (Json raw_t))
                (Response st_b (Json raw_b)) (Response st_p (Json raw_p))
                (Response st_e (Json raw_e)) = Inr (st, Rows rows)"
    and r: "r \<in> set rows"
  shows "st = 200 \<and> economica r = None"
proof -
  from res obtain mt mb mp where "merge_pro ''UYU'' mt mb mp [] = Inr rows" "st = 200"
    unfolding UYU_checks [OF d] using assms(2)
    by (auto simp: and_then_Inr split: if_splits)
  then show ?thesis
    using merge_no_economy r by blast
qed

text \<open>
C4, as the code has it. With a date that normalises and four upstream answers that
  parse: a tourist status other than 200 fails the query with that status and body in
  both clients; in V2 a business or a first status other than 200 fails it in the same
  way, in that order; the Uruguayan client never looks at the business and first
  statuses and gives the result it would give had they been 200, their bodies going
  through the extractor whatever they are. In both clients an economy status other than
  200 is treated exactly as an empty economy answer: when the query returns a table, the
  status is 200 and no record has an economy amount.
\<close>

theorem pro_failure_handling:
  assumes d: "normalize_date_to_yymmdd fecha = Inr ymd"
  shows
    "(st_t \<noteq> 200 \<longrightarrow>
        fetch_day_web_prices_pro_V2 fecha (Response st_t (Json raw_t)) (Response st_b (Json raw_b))
          (Response st_p (Json raw_p)) (Response st_e (Json raw_e)) = Inr (st_t, Raw raw_t)
        \<and> fetch_day_web_prices_pro_UYU fecha (Response st_t (Json raw_t)) (Response st_b (Json raw_b))
          (Response st_p (Json raw_p)) (Response st_e (Json raw_e)) = Inr (st_t, Raw raw_t))
     \<and> (st_b \<noteq> 200 \<longrightarrow>
        fetch_day_web_prices_pro_V2 fecha (Response 200 (Json raw_t)) (Response st_b (Json raw_b))
          (Response st_p (Json raw_p)) (Response st_e (Json raw_e)) = Inr (st_b, Raw raw_b))
     \<and> (st_p \<noteq> 200 \<longrightarrow>
        fetch_day_web_prices_pro_V2 fecha (Response 200 (Json raw_t)) (Response 200 (Json raw_b))
          (Response st_p (Json raw_p)) (Response st_e (Json raw_e)) = Inr (st_p, Raw raw_p))
     \<and> fetch_day_web_prices_pro_UYU fecha (Response 200 (Json raw_t)) (Response st_b (Json raw_b))
          (Response st_p (Json raw_p)) (Response st_e (Json raw_e))
        = fetch_day_web_prices_pro_UYU fecha (Response 200 (Json raw_t)) (Response 200 (Json raw_b))
          (Response 200 (Json raw_p)) (Response st_e (Json raw_e))
     \<and> (st_e \<noteq> 200 \<longrightarrow>
        fetch_day_web_prices_pro_V2 fecha (Response st_t (Json raw_t)) (Response st_b (Json raw_b))
          (Response st_p (Json raw_p)) (Response st_e (Json raw_e))
        = fetch_day_web_prices_pro_V2 fecha (Response st_t (Json raw_t)) (Response st_b (Json raw_b))
          (Response st_p (Json raw_p)) (Response 200 Empty)
        \<and> fetch_day_web_prices_pro_UYU fecha (Response st_t (Json raw_t)) (Response st_b (Json raw_b))
          (Response st_p (Json raw_p)) (Response st_e (Json raw_e))
        = fetch_day_web_prices_pro_UYU fecha (Response st_t (Json raw_t)) (Response st_b (Json raw_b))
          (Response st_p (Json raw_p)) (Response 200 Empty))
     \<and> (st_e \<noteq> 200 \<and> r \<in> set rows \<and>
         (fetch_day_web_prices_pro_V2 fecha (Response st_t (Json raw_t)) (Response st_b (Json raw_b))
            (Response st_p (Json raw_p)) (Response st_e (Json raw_e)) = Inr (st, Rows rows)
          \<or> fetch_day_web_prices_pro_UYU fecha (Response st_t (Json raw_t)) (Response st_b (Json raw_b))
            (Response st_p (Json raw_p)) (Response st_e (Json raw_e)) = Inr (st, Rows rows))
        \<longrightarrow> st = 200 \<and> economica r = None)"
proof (intro conjI impI)
  assume "st_t \<noteq> 200"
  then show "fetch_day_web_prices_pro_V2 fecha (Response st_t (Json raw_t)) (Response st_b (Json raw_b))
          (Response st_p (Json raw_p)) (Response st_e (Json raw_e)) = Inr (st_t, Raw raw_t)"
    and "fetch_day_web_prices_pro_UYU fecha (Response st_t (Json raw_t)) (Response st_b (Json raw_b))
          (Response st_p (Json raw_p)) (Response st_e (Json raw_e)) = Inr (st_t, Raw raw_t)"
    by (simp_all add: V2_checks [OF d] UYU_checks [OF d])
next
  assume "st_b \<noteq> 200"
  then show "fetch_day_web_prices_pro_V2 fecha (Response 200 (Json raw_t)) (Response st_b (Json raw_b))
          (Response st_p (Json raw_p)) (Response st_e (Json raw_e)) = Inr (st_b, Raw raw_b)"
    by (simp add: V2_checks [OF d])
next
  assume "st_p \<noteq> 200"
  then show "fetch_day_web_prices_pro_V2 fecha (Response 200 (Json raw_t)) (Response 200 (Json raw_b))
          (Response st_p (Json raw_p)) (Response st_e (Json raw_e)) = Inr (st_p, Raw raw_p)"
    by (simp add: V2_checks [OF d])
next
  show "fetch_day_web_prices_pro_UYU fecha (Response 200 (Json raw_t)) (Response st_b (Json raw_b))
          (Response st_p (Json raw_p)) (Response st_e (Json raw_e))
        = fetch_day_web_prices_pro_UYU fecha (Response 200 (Json raw_t)) (Response 200 (Json raw_b))
          (Response 200 (Json raw_p)) (Response st_e (Json raw_e))"
    by (simp add: UYU_checks [OF d])
next
  assume "st_e \<noteq> 200"
  then show "fetch_day_web_prices_pro_V2 fecha (Response st_t (Json raw_t)) (Response st_b (Json raw_b))
          (Response st_p (Json raw_p)) (Response st_e (Json raw_e))
        = fetch_day_web_prices_pro_V2 fecha (Response st_t (Json raw_t)) (Response st_b (Json raw_b))
          (Response st_p (Json raw_p)) (Response 200 Empty)"
    and "fetch_day_web_prices_pro_UYU fecha (Response st_t (Json raw_t)) (Response st_b (Json raw_b))
          (Response st_p (Json raw_p)) (Response st_e (Json raw_e))
        = fetch_day_web_prices_pro_UYU fecha (Response st_t (Json raw_t)) (Response st_b (Json raw_b))
          (Response st_p (Json raw_p)) (Response 200 Empty)"
    by (simp_all add: V2_checks [OF d] UYU_checks [OF d] V2_economy_empty [OF d]
        UYU_economy_empty [OF d] and_then_def)
next
  assume a: "st_e \<noteq> 200 \<and> r \<in> set rows \<and>
         (fetch_day_web_prices_pro_V2 fecha (Response st_t (Json raw_t)) (Response st_b (Json raw_b))
            (Response st_p (Json raw_p)) (Response st_e (Json raw_e)) = Inr (st, Rows rows)
          \<or> fetch_day_web_prices_pro_UYU fecha (Response st_t (Json raw_t)) (Response st_b (Json raw_b))
            (Response st_p (Json raw_p)) (Response st_e (Json raw_e)) = Inr (st, Rows rows))"
  then have "st = 200 \<and> economica r = None"
    using economy_absent_V2 [OF d, of st_e st_t raw_t st_b raw_b st_p raw_p raw_e st rows r]
      economy_absent_UYU [OF d, of st_e st_t raw_t st_b raw_b st_p raw_p raw_e st rows r]
    by blast
  then show "st = 200" and "economica r = None"
    by simp_all
qed

lemma merge_business_only_UYU:
  "merge_pro ''UYU'' [] [(JStr ''A1'', Some (Fin 1000), Some ''08:45'', Some ''10:00'', JStr ''Ship'')]
     [] []
   = Inr [\<lparr> hora_salida = None, hora_llegada = None, barco = JStr ''Ship'', codigo = JStr ''A1'',
            turista = None, business = Some ''UYU 1.000,00'', diferencia = None,
            economica = None, primera = None \<rparr>]"
proof -
  have "fmt ''UYU'' (Some (Fin 1000)) = Some ''UYU 1.000,00''"
    by (simp add: fmt_def round_half_even_def Let_def group3_def digit_char_def replace_def)
  then show ?thesis
    by (simp add: merge_pro_def key_union_def key_add_def py_sorted_def and_then_def merge_row_def
        get4_def key_eq_def str_or_def str_truthy_def py_or_def amount_truthy_def)
      (simp add: fmt_def)
qed

theorem pro_failure_handling_witness:
  "normalize_date_to_yymmdd ''2025-03-14'' = Inr (''25'', ''03'', ''14'')
   \<and> (500::int) \<noteq> 200
   \<and> fetch_day_web_prices_pro_V2 ''2025-03-14''
        (Response 200 (Json (day_response []))) (Response 500 (Json (JStr ''bad gateway'')))
        (Response 200 (Json (day_response []))) (Response 200 (Json (day_response [])))
      = Inr (500, Raw (JStr ''bad gateway''))
   \<and> fetch_day_web_prices_pro_UYU ''2025-03-14''
        (Response 500 (Json (JStr ''bad gateway''))) (Response 200 (Json (day_response [])))
        (Response 200 (Json (day_response []))) (Response 200 (Json (day_response [])))
      = Inr (500, Raw (JStr ''bad gateway''))"
proof -
  have n: "(500::int) \<noteq> 200" by simp
  from pro_failure_handling [OF normalize_sample, of 500 "JStr ''bad gateway''" 200
      "day_response []" 200 "day_response []" 200 "day_response []"] n
  have u: "fetch_day_web_prices_pro_UYU ''2025-03-14''
        (Response 500 (Json (JStr ''bad gateway''))) (Response 200 (Json (day_response [])))
        (Response 200 (Json (day_response []))) (Response 200 (Json (day_response [])))
      = Inr (500, Raw (JStr ''bad gateway''))"
    by blast
  from pro_failure_handling [OF normalize_sample, of 200 "day_response []" 500
      "JStr ''bad gateway''" 200 "day_response []" 200 "day_response []"] n
  have v: "fetch_day_web_prices_pro_V2 ''2025-03-14''
        (Response 200 (Json (day_response []))) (Response 500 (Json (JStr ''bad gateway'')))
        (Response 200 (Json (day_response []))) (Response 200 (Json (day_response [])))
      = Inr (500, Raw (JStr ''bad gateway''))"
    by blast
  show ?thesis
    using normalize_sample n u v by blast
qed

theorem secondary_failure_counterexample:
  "fetch_day_web_prices_pro_V2 ''2025-03-14''
     (Response 200 (Json (day_response [])))
     (Response 500 (Json (JObj [(''error'', JStr ''upstream'')])))
     (Response 200 (Json (day_response [])))
     (Response 200 (Json (day_response [])))
   = Inr (500, Raw (JObj [(''error'', JStr ''upstream'')]))
   \<and> fetch_day_web_prices_pro_UYU ''2025-03-14''
     (Response 200 (Json (day_response [])))
     (Response 500 (Json (day_response
        [sailing_item (JStr ''A1'') (JStr ''0845'') (JStr ''1000'') (JStr ''Ship'')
           [tariff_item ''PROGRAMADA'' (JStr ''100000'')]])))
     (Response 200 (Json (day_response [])))
     (Response 200 (Json (day_response [])))
   = Inr (200, Rows [\<lparr> hora_salida = None, hora_llegada = None, barco = JStr ''Ship'',
                        codigo = JStr ''A1'', turista = None, business = Some ''UYU 1.000,00'',
                        diferencia = None, economica = None, primera = None \<rparr>])"
proof -
  have ne: "''A1'' \<noteq> []" by simp
  have b: "totales_programada_por_sailing
     (day_response [sailing_item (JStr ''A1'') (JStr ''0845'') (JStr ''1000'') (JStr ''Ship'')
                      [tariff_item ''PROGRAMADA'' (JStr ''100000'')]])
   = Inr [(JStr ''A1'', Some (Fin 1000), Some ''08:45'', Some ''10:00'', JStr ''Ship'')]"
    using programada_one_sailing [OF ne total_programada_sample, of "''0845''" "''1000''" "JStr ''Ship''"]
    by simp
  show ?thesis
    by (simp add: b V2_checks [OF normalize_sample] UYU_checks [OF normalize_sample] and_then_def
        programada_empty_day tarifa_empty_day merge_business_only_UYU)
qed

end
